theory Spec2Isabelle
  imports Main
begin

section \<open>JSON values and the JavaScript built-ins the handlers use\<close>

text \<open>
  The two intent-routed handlers, \<^verbatim>\<open>src/app/api/stream-object/route.ts\<close> and
  \<^verbatim>\<open>src/app/api/generate-object-smart/route.ts\<close>, move JSON values between the request,
  the generation backend and the response. A JavaScript string is modelled by its UTF-8
  bytes, so \<^verbatim>\<open>TextEncoder.encode\<close> is the identity on it. An object is the list of its
  own properties in enumeration order, with distinct keys.
\<close>

subsection \<open>Numbers\<close>

text \<open>
  A number is a finite double, given by the parts of the decimal text that JavaScript
  writes for it (\<^verbatim>\<open>Number::toString\<close>): the sign, the integer digits, the fraction digits
  and the exponent, as in \<^verbatim>\<open>-5\<close>, \<^verbatim>\<open>19.99\<close>, \<^verbatim>\<open>1e+21\<close>, \<^verbatim>\<open>1.5e-7\<close>. The
  handlers never compute with a number: they only write it, with \<^verbatim>\<open>JSON.stringify\<close>
  or in a template literal, and both write this text. \<open>decimal m e\<close> below is the way
  from the value \<open>m \<times> 10\<^sup>e\<close> to its number.
\<close>

datatype digit = D0 | D1 | D2 | D3 | D4 | D5 | D6 | D7 | D8 | D9

datatype number =
  Number (negative: bool) (whole: nat) (fraction: "digit list") (exponent: "int option")

datatype json =
    JNull
  | JBool bool
  | JNum number
  | JStr string
  | JArr "json list"
  | JObj "(string \<times> json) list"

text \<open>A JavaScript value that may be \<^verbatim>\<open>undefined\<close>: \<open>None\<close> is \<^verbatim>\<open>undefined\<close>.\<close>

type_synonym jsvalue = "json option"

text \<open>\<^verbatim>\<open>Array.prototype.join\<close> on strings.\<close>

fun join :: "string \<Rightarrow> string list \<Rightarrow> string" where
  "join sep [] = []"
| "join sep [x] = x"
| "join sep (x # y # ys) = x @ sep @ join sep (y # ys)"

text \<open>Decimal digits of a natural number, most significant first.\<close>

fun digits :: "nat \<Rightarrow> string" where
  "digits n =
     (if n < 10 then [char_of (48 + n)]
      else digits (n div 10) @ [char_of (48 + n mod 10)])"

declare digits.simps [simp del]

fun digit_char :: "digit \<Rightarrow> char" where
  "digit_char D0 = CHR ''0''"
| "digit_char D1 = CHR ''1''"
| "digit_char D2 = CHR ''2''"
| "digit_char D3 = CHR ''3''"
| "digit_char D4 = CHR ''4''"
| "digit_char D5 = CHR ''5''"
| "digit_char D6 = CHR ''6''"
| "digit_char D7 = CHR ''7''"
| "digit_char D8 = CHR ''8''"
| "digit_char D9 = CHR ''9''"

text \<open>The text of a number: \<^verbatim>\<open>String(x)\<close>, and \<^verbatim>\<open>JSON.stringify(x)\<close> too.\<close>

definition fraction_text :: "digit list \<Rightarrow> string" where
  "fraction_text f = (if f = [] then [] else ''.'' @ map digit_char f)"

definition exponent_text :: "int option \<Rightarrow> string" where
  "exponent_text e =
     (case e of
        None \<Rightarrow> []
      | Some x \<Rightarrow> ''e'' @ (if x < 0 then ''-'' else ''+'') @ digits (nat \<bar>x\<bar>))"

definition number_to_string :: "number \<Rightarrow> string" where
  "number_to_string x =
     (if negative x then ''-'' else []) @
     digits (whole x) @ fraction_text (fraction x) @ exponent_text (exponent x)"

text \<open>
  \<^verbatim>\<open>Number::toString\<close> for the value \<open>m \<times> 10\<^sup>e\<close>. With \<open>s\<close> the digits of \<open>m\<close> without
  its trailing zeros, \<open>k\<close> their count and \<open>s \<times> 10\<^bsup>n - k\<^esup>\<close> the value: the digits followed
  by zeros when \<open>k \<le> n \<le> 21\<close>, the digits with a point after the first \<open>n\<close> when
  \<open>0 < n \<le> 21\<close>, \<^verbatim>\<open>0.\<close> with \<open>-n\<close> zeros and the digits when \<open>-6 < n \<le> 0\<close>, and
  exponent notation otherwise.
\<close>

fun digit_of :: "nat \<Rightarrow> digit" where
  "digit_of n =
     (if n mod 10 = 0 then D0 else if n mod 10 = 1 then D1 else if n mod 10 = 2 then D2
      else if n mod 10 = 3 then D3 else if n mod 10 = 4 then D4 else if n mod 10 = 5 then D5
      else if n mod 10 = 6 then D6 else if n mod 10 = 7 then D7 else if n mod 10 = 8 then D8
      else D9)"

fun digit_list :: "nat \<Rightarrow> digit list" where
  "digit_list n = (if n < 10 then [digit_of n] else digit_list (n div 10) @ [digit_of n])"

declare digit_list.simps [simp del]

fun strip_zeros :: "nat \<Rightarrow> int \<Rightarrow> nat \<times> int" where
  "strip_zeros s e = (if s \<noteq> 0 \<and> s mod 10 = 0 then strip_zeros (s div 10) (e + 1) else (s, e))"

declare strip_zeros.simps [simp del]

definition decimal :: "int \<Rightarrow> int \<Rightarrow> number" where
  "decimal m e =
     (if m = 0 then Number False 0 [] None
      else
        let (s, e') = strip_zeros (nat \<bar>m\<bar>) e;
            k = int (length (digit_list s));
            n = e' + k
        in if k \<le> n \<and> n \<le> 21 then Number (m < 0) (s * 10 ^ nat (n - k)) [] None
           else if 0 < n \<and> n \<le> 21 then
             Number (m < 0) (s div 10 ^ nat (k - n)) (drop (nat n) (digit_list s)) None
           else if - 6 < n \<and> n \<le> 0 then
             Number (m < 0) 0 (replicate (nat (- n)) D0 @ digit_list s) None
           else
             Number (m < 0) (s div 10 ^ nat (k - 1)) (tl (digit_list s)) (Some (n - 1)))"

definition hexdigit :: "nat \<Rightarrow> char" where
  "hexdigit n = (if n < 10 then char_of (48 + n) else char_of (87 + n))"

text \<open>
  \<^verbatim>\<open>JSON.stringify\<close> on one byte of a string: the double quote, the backslash and the
  control characters below \<open>0x20\<close> are escaped, every other byte is copied.
\<close>

definition quote_char :: "char \<Rightarrow> string" where
  \<open>quote_char c =
     (if c = CHR 0x22 then [CHR 0x5C, CHR 0x22]
      else if c = CHR 0x5C then [CHR 0x5C, CHR 0x5C]
      else if c = CHR 0x08 then [CHR 0x5C, CHR ''b'']
      else if c = CHR 0x09 then [CHR 0x5C, CHR ''t'']
      else if c = CHR 0x0A then [CHR 0x5C, CHR ''n'']
      else if c = CHR 0x0C then [CHR 0x5C, CHR ''f'']
      else if c = CHR 0x0D then [CHR 0x5C, CHR ''r'']
      else if (of_char c :: nat) < 32
        then [CHR 0x5C, CHR ''u'', CHR ''0'', CHR ''0'',
              hexdigit (of_char c div 16), hexdigit (of_char c mod 16)]
      else [c])\<close>

definition quote :: "string \<Rightarrow> string" where
  \<open>quote s = [CHR 0x22] @ concat (map quote_char s) @ [CHR 0x22]\<close>

text \<open>\<^verbatim>\<open>JSON.stringify(value)\<close> with no indentation argument.\<close>

fun stringify :: "json \<Rightarrow> string" where
  "stringify JNull = ''null''"
| "stringify (JBool b) = (if b then ''true'' else ''false'')"
| "stringify (JNum n) = number_to_string n"
| "stringify (JStr s) = quote s"
| "stringify (JArr xs) = ''['' @ join '','' (map stringify xs) @ '']''"
| "stringify (JObj fs) =
     ''{'' @ join '','' (map (\<lambda>(k, v). quote k @ '':'' @ stringify v) fs) @ ''}''"

subsection \<open>Errors and string conversion\<close>

datatype js_error =
    SyntaxError
  | TypeError
  | BackendError string

text \<open>The results of a sequence of evaluations, up to the first one that throws.\<close>

fun collect :: "(js_error + 'a) list \<Rightarrow> js_error + 'a list" where
  "collect [] = Inr []"
| "collect (Inl e # rs) = Inl e"
| "collect (Inr a # rs) = (case collect rs of Inl e \<Rightarrow> Inl e | Inr as \<Rightarrow> Inr (a # as))"

text \<open>
  \<^verbatim>\<open>String(value)\<close>, which a template literal applies to an interpolated value. An
  array joins the strings of its elements with commas, \<^verbatim>\<open>null\<close> elements giving the
  empty string. A parsed object has no callable \<^verbatim>\<open>toString\<close> of its own: with an own
  \<^verbatim>\<open>toString\<close> property the conversion finds no method that returns a primitive and
  throws a \<^verbatim>\<open>TypeError\<close>, and without one the inherited method gives
  \<^verbatim>\<open>[object Object]\<close>.
\<close>

fun to_string :: "json \<Rightarrow> js_error + string" where
  "to_string JNull = Inr ''null''"
| "to_string (JBool b) = Inr (if b then ''true'' else ''false'')"
| "to_string (JNum n) = Inr (number_to_string n)"
| "to_string (JStr s) = Inr s"
| "to_string (JArr xs) =
     (case collect (map (\<lambda>x. if x = JNull then Inr [] else to_string x) xs) of
        Inl e \<Rightarrow> Inl e
      | Inr ss \<Rightarrow> Inr (join '','' ss))"
| "to_string (JObj fs) =
     (if ''toString'' \<in> fst ` set fs then Inl TypeError else Inr ''[object Object]'')"

text \<open>The interpolation \<^verbatim>\<open>${v}\<close> of a template literal.\<close>

definition template :: "jsvalue \<Rightarrow> js_error + string" where
  "template v = (case v of None \<Rightarrow> Inr ''undefined'' | Some j \<Rightarrow> to_string j)"

text \<open>A template literal \<^verbatim>\<open>`lead${v}`\<close>, as a value handed to the backend.\<close>

definition interpolate :: "string \<Rightarrow> jsvalue \<Rightarrow> js_error + jsvalue" where
  "interpolate lead v =
     (case template v of Inl e \<Rightarrow> Inl e | Inr text \<Rightarrow> Inr (Some (JStr (lead @ text))))"

text \<open>\<^verbatim>\<open>new TextEncoder().encode(s)\<close>: the UTF-8 bytes of the string.\<close>

definition encode :: "string \<Rightarrow> string" where
  "encode s = s"

section \<open>Requests and responses\<close>

text \<open>A request is what \<^verbatim>\<open>await req.json()\<close> gives: the parsed body, or a rejection.\<close>

type_synonym request = "js_error + json"

text \<open>
  \<^verbatim>\<open>const { prompt } = value\<close>: destructuring \<^verbatim>\<open>null\<close> throws, a missing property
  and a property of a primitive are \<^verbatim>\<open>undefined\<close>.
\<close>

fun destructure_prompt :: "json \<Rightarrow> js_error + jsvalue" where
  "destructure_prompt JNull = Inl TypeError"
| "destructure_prompt (JObj fs) = Inr (map_of fs ''prompt'')"
| "destructure_prompt v = Inr None"

subsection \<open>The response stream\<close>

text \<open>
  The \<^verbatim>\<open>ReadableStream\<close> controller: \<open>enqueued\<close> records the chunks handed to
  \<^verbatim>\<open>controller.enqueue\<close>, in order; \<open>state\<close> is the state of the stream.
\<close>

datatype stream_state = Readable | Closed | Errored js_error

record controller =
  enqueued :: "string list"
  state :: stream_state

definition new_controller :: controller where
  "new_controller = \<lparr>enqueued = [], state = Readable\<rparr>"

definition enqueue :: "string \<Rightarrow> controller \<Rightarrow> js_error + controller" where
  "enqueue chunk c =
     (if state c = Readable then Inr (c\<lparr>enqueued := enqueued c @ [chunk]\<rparr>)
      else Inl TypeError)"

definition close :: "controller \<Rightarrow> js_error + controller" where
  "close c = (if state c = Readable then Inr (c\<lparr>state := Closed\<rparr>) else Inl TypeError)"

definition error :: "js_error \<Rightarrow> controller \<Rightarrow> controller" where
  "error e c = (if state c = Readable then c\<lparr>state := Errored e\<rparr> else c)"

text \<open>
  What \<^verbatim>\<open>start\<close> does, in the order in which it does it: an object received from the
  iterator of the partial-object stream, the end of the iteration or the error it throws,
  and each call of \<^verbatim>\<open>controller.enqueue\<close>, \<^verbatim>\<open>controller.close\<close> and
  \<^verbatim>\<open>controller.error\<close> that returned.
\<close>

datatype event =
    Received json
  | Ended
  | Threw js_error
  | Enqueue_called string
  | Close_called
  | Error_called js_error

datatype response =
    Response_json nat json
  | Response_stream nat "(string \<times> string) list" controller

fun status :: "response \<Rightarrow> nat" where
  "status (Response_json s b) = s"
| "status (Response_stream s h c) = s"

section \<open>Schemas and the generation backend\<close>

text \<open>The \<^verbatim>\<open>zod\<close> schemas the handlers register, as the source writes them.\<close>

datatype zod =
    ZString
  | ZNumber "int option" "int option"
  | ZEnum "string list"
  | ZArray zod
  | ZObject "(string \<times> zod) list"
  | ZOptional zod

definition model :: string where
  "model = ''gemini-2.5-flash''"

text \<open>
  One call to the backend, with its arguments: the enum-constrained
  \<^verbatim>\<open>generateObject\<close>, the schema-constrained \<^verbatim>\<open>generateObject\<close>,
  \<^verbatim>\<open>generateText\<close> and \<^verbatim>\<open>streamObject\<close>.
\<close>

datatype call =
    EnumCall string "string list" string
  | ObjectCall string zod jsvalue
  | TextCall string jsvalue
  | StreamCall string zod jsvalue

text \<open>
  What \<^verbatim>\<open>result.partialObjectStream\<close> yields to \<^verbatim>\<open>for await\<close>: the partial
  objects in order, then either the end of the iteration or a thrown error.
\<close>

type_synonym partial_stream = "json list \<times> js_error option"

text \<open>
  The backend is a parameter of the model: what each SDK function returns (\<open>Inr\<close>) or
  throws (\<open>Inl\<close>) for given arguments. \<^verbatim>\<open>streamObject\<close> is not awaited: it hands back
  its result at once, and a failure of the generation shows when the stream is read.
\<close>

record backend =
  generateObject_enum :: "string \<Rightarrow> string list \<Rightarrow> string \<Rightarrow> js_error + json"
  generateObject :: "string \<Rightarrow> zod \<Rightarrow> jsvalue \<Rightarrow> js_error + json"
  generateText :: "string \<Rightarrow> jsvalue \<Rightarrow> js_error + string"
  streamObject :: "string \<Rightarrow> zod \<Rightarrow> jsvalue \<Rightarrow> partial_stream"

section \<open>The stream-object handler\<close>

definition stream_labels :: "string list" where
  "stream_labels = [''recipe'', ''person'', ''product'', ''story'']"

text \<open>
  The template literal handed to the classifier, first with the string that the
  interpolation \<^verbatim>\<open>${prompt}\<close> gave, then as the handler evaluates it: it throws when
  the interpolation of the prompt throws.
\<close>

definition stream_classifier_text :: "string \<Rightarrow> string" where
  \<open>stream_classifier_text interpolated =
     ''Classify what the user is asking for: "'' @ interpolated @ ''"\<newline>'' @
     ''      \<newline>'' @
     ''      - recipe: User wants a recipe or cooking instructions\<newline>'' @
     ''      - person: User is asking about a person\<newline>'' @
     ''      - product: User wants product information\<newline>'' @
     ''      - story: User wants a creative story''\<close>

definition stream_classifier_prompt :: "jsvalue \<Rightarrow> js_error + string" where
  "stream_classifier_prompt prompt =
     (case template prompt of
        Inl e \<Rightarrow> Inl e
      | Inr interpolated \<Rightarrow> Inr (stream_classifier_text interpolated))"

definition stream_recipe_schema :: zod where
  "stream_recipe_schema =
     ZObject [(''recipe'', ZObject
       [(''name'', ZString),
        (''cuisine'', ZString),
        (''difficulty'', ZEnum [''easy'', ''medium'', ''hard'']),
        (''prepTime'', ZString),
        (''cookTime'', ZString),
        (''servings'', ZNumber None None),
        (''ingredients'', ZArray (ZObject
           [(''name'', ZString), (''amount'', ZString), (''unit'', ZString)])),
        (''steps'', ZArray ZString),
        (''tags'', ZArray ZString)])]"

definition stream_person_schema :: zod where
  "stream_person_schema =
     ZObject [(''person'', ZObject
       [(''name'', ZString),
        (''profession'', ZString),
        (''nationality'', ZString),
        (''birthYear'', ZOptional (ZNumber None None)),
        (''knownFor'', ZArray ZString),
        (''achievements'', ZArray ZString),
        (''biography'', ZString),
        (''funFacts'', ZArray ZString)])]"

definition stream_product_schema :: zod where
  "stream_product_schema =
     ZObject [(''product'', ZObject
       [(''name'', ZString),
        (''category'', ZString),
        (''price'', ZNumber None None),
        (''description'', ZString),
        (''features'', ZArray ZString),
        (''pros'', ZArray ZString),
        (''cons'', ZArray ZString),
        (''rating'', ZNumber (Some 1) (Some 5))])]"

definition stream_story_schema :: zod where
  "stream_story_schema =
     ZObject [(''story'', ZObject
       [(''title'', ZString),
        (''genre'', ZString),
        (''setting'', ZString),
        (''characters'', ZArray (ZObject
           [(''name'', ZString), (''role'', ZString), (''description'', ZString)])),
        (''plot'', ZString),
        (''twist'', ZString),
        (''moralLesson'', ZOptional ZString)])]"

text \<open>
  The \<^verbatim>\<open>switch (intent)\<close> of the handler: the schema and the prompt handed to
  \<^verbatim>\<open>streamObject\<close> in each case (the prompt is \<open>Inl\<close> when its template literal
  throws), \<open>None\<close> for the \<^verbatim>\<open>default\<close> branch. The comparison of \<^verbatim>\<open>switch\<close> is
  strict equality with the string of the case.
\<close>

definition stream_switch :: "json \<Rightarrow> jsvalue \<Rightarrow> (zod \<times> (js_error + jsvalue)) option" where
  "stream_switch intent prompt =
     (if intent = JStr ''recipe'' then Some (stream_recipe_schema, Inr prompt)
      else if intent = JStr ''person'' then
        Some (stream_person_schema, interpolate ''Provide detailed information about: '' prompt)
      else if intent = JStr ''product'' then
        Some (stream_product_schema,
              interpolate ''Generate detailed product information for: '' prompt)
      else if intent = JStr ''story'' then
        Some (stream_story_schema, interpolate ''Write a creative story about: '' prompt)
      else None)"

text \<open>The frames the handler builds before \<^verbatim>\<open>JSON.stringify\<close>.\<close>

definition intent_frame :: "json \<Rightarrow> json" where
  "intent_frame intent = JObj [(''type'', JStr ''intent''), (''intent'', intent)]"

definition partial_frame :: "json \<Rightarrow> json" where
  "partial_frame partialObject = JObj [(''type'', JStr ''partial''), (''data'', partialObject)]"

definition complete_frame :: json where
  "complete_frame = JObj [(''type'', JStr ''complete'')]"

text \<open>\<^verbatim>\<open>encoder.encode(JSON.stringify(frame) + '\n')\<close>.\<close>

definition frame_chunk :: "json \<Rightarrow> string" where
  "frame_chunk frame = encode (stringify frame @ ''\<newline>'')"

text \<open>
  The \<^verbatim>\<open>for await\<close> loop over the partial objects, from a controller and the events so
  far. The result is the error thrown out of the loop, if any (by \<^verbatim>\<open>enqueue\<close>, or by
  the iterator once its objects are consumed), the controller as the loop left it, and
  the events.
\<close>

fun relay ::
  "json list \<Rightarrow> js_error option \<Rightarrow> controller \<Rightarrow> event list \<Rightarrow>
   js_error option \<times> controller \<times> event list" where
  "relay [] failure c t =
     (failure, c, t @ [case failure of None \<Rightarrow> Ended | Some e \<Rightarrow> Threw e])"
| "relay (partialObject # rest) failure c t =
     (case enqueue (frame_chunk (partial_frame partialObject)) c of
        Inl e \<Rightarrow> (Some e, c, t @ [Received partialObject])
      | Inr c' \<Rightarrow>
          relay rest failure c'
            (t @ [Received partialObject,
                  Enqueue_called (frame_chunk (partial_frame partialObject))]))"

text \<open>The body of the \<^verbatim>\<open>try\<close> block of \<^verbatim>\<open>start(controller)\<close>.\<close>

definition start_try ::
  "json \<Rightarrow> partial_stream \<Rightarrow> controller \<Rightarrow> js_error option \<times> controller \<times> event list" where
  "start_try intent partialObjectStream c =
     (case enqueue (frame_chunk (intent_frame intent)) c of
        Inl e \<Rightarrow> (Some e, c, [])
      | Inr c1 \<Rightarrow>
          (case relay (fst partialObjectStream) (snd partialObjectStream) c1
                  [Enqueue_called (frame_chunk (intent_frame intent))] of
             (Some e, c2, t) \<Rightarrow> (Some e, c2, t)
           | (None, c2, t) \<Rightarrow>
               (case enqueue (frame_chunk complete_frame) c2 of
                  Inl e \<Rightarrow> (Some e, c2, t)
                | Inr c3 \<Rightarrow>
                    (case close c3 of
                       Inl e \<Rightarrow>
                         (Some e, c3, t @ [Enqueue_called (frame_chunk complete_frame)])
                     | Inr c4 \<Rightarrow>
                         (None, c4,
                          t @ [Enqueue_called (frame_chunk complete_frame), Close_called])))))"

text \<open>
  \<^verbatim>\<open>start(controller)\<close>: the \<^verbatim>\<open>catch\<close> block calls \<^verbatim>\<open>controller.error(error)\<close>.
  The result is the controller as \<^verbatim>\<open>start\<close> leaves it, and the events.
\<close>

definition start :: "json \<Rightarrow> partial_stream \<Rightarrow> controller \<Rightarrow> controller \<times> event list" where
  "start intent partialObjectStream c =
     (case start_try intent partialObjectStream c of
        (None, c', t) \<Rightarrow> (c', t)
      | (Some e, c', t) \<Rightarrow> (error e c', t @ [Error_called e]))"

definition stream_headers :: "(string \<times> string) list" where
  "stream_headers =
     [(''Content-Type'', ''text/event-stream''),
      (''Cache-Control'', ''no-cache''),
      (''Connection'', ''keep-alive'')]"

definition stream_failed :: response where
  "stream_failed = Response_json 500 (JObj [(''error'', JStr ''Failed to stream object'')])"

text \<open>
  \<^verbatim>\<open>POST\<close> of \<^verbatim>\<open>stream-object/route.ts\<close>. The result is the response and the calls
  made to the backend, in order. Every error thrown outside \<^verbatim>\<open>start\<close> reaches the
  outer \<^verbatim>\<open>catch\<close>. The stream of the response is given as \<^verbatim>\<open>start\<close> leaves it when
  the client reads to the end without cancelling.
\<close>

definition POST_stream_object :: "backend \<Rightarrow> request \<Rightarrow> response \<times> call list" where
  "POST_stream_object be req =
     (case req of
        Inl e \<Rightarrow> (stream_failed, [])
      | Inr body \<Rightarrow>
          (case destructure_prompt body of
             Inl e \<Rightarrow> (stream_failed, [])
           | Inr prompt \<Rightarrow>
               (case stream_classifier_prompt prompt of
                  Inl e \<Rightarrow> (stream_failed, [])
                | Inr text \<Rightarrow>
                    (let classification = EnumCall model stream_labels text in
                     case generateObject_enum be model stream_labels text of
                       Inl e \<Rightarrow> (stream_failed, [classification])
                     | Inr intent \<Rightarrow>
                         (case stream_switch intent prompt of
                            None \<Rightarrow>
                              (Response_json 400 (JObj [(''error'', JStr ''Unknown intent'')]),
                               [classification])
                          | Some (schema, Inl e) \<Rightarrow> (stream_failed, [classification])
                          | Some (schema, Inr p) \<Rightarrow>
                              (Response_stream 200 stream_headers
                                 (fst (start intent (streamObject be model schema p)
                                         new_controller)),
                               [classification, StreamCall model schema p]))))))"

section \<open>The generate-object-smart handler\<close>

definition smart_labels :: "string list" where
  "smart_labels = [''recipe'', ''person'', ''general-question'', ''product'']"

definition smart_classifier_text :: "string \<Rightarrow> string" where
  \<open>smart_classifier_text interpolated =
     ''Classify what the user is asking for: "'' @ interpolated @ ''"\<newline>'' @
     ''      \<newline>'' @
     ''      - recipe: User wants a recipe or cooking instructions\<newline>'' @
     ''      - person: User is asking about a person\<newline>'' @
     ''      - general-question: User is asking a general knowledge question\<newline>'' @
     ''      - product: User wants product information''\<close>

definition smart_classifier_prompt :: "jsvalue \<Rightarrow> js_error + string" where
  "smart_classifier_prompt prompt =
     (case template prompt of
        Inl e \<Rightarrow> Inl e
      | Inr interpolated \<Rightarrow> Inr (smart_classifier_text interpolated))"

definition smart_recipe_schema :: zod where
  "smart_recipe_schema =
     ZObject [(''recipe'', ZObject
       [(''name'', ZString),
        (''cuisine'', ZString),
        (''difficulty'', ZEnum [''easy'', ''medium'', ''hard'']),
        (''prepTime'', ZString),
        (''cookTime'', ZString),
        (''servings'', ZNumber None None),
        (''ingredients'', ZArray (ZObject
           [(''name'', ZString), (''amount'', ZString), (''unit'', ZString)])),
        (''steps'', ZArray ZString),
        (''tags'', ZArray ZString)])]"

definition smart_person_schema :: zod where
  "smart_person_schema =
     ZObject [(''person'', ZObject
       [(''name'', ZString),
        (''profession'', ZString),
        (''nationality'', ZString),
        (''birthYear'', ZOptional (ZNumber None None)),
        (''knownFor'', ZArray ZString),
        (''achievements'', ZArray ZString),
        (''biography'', ZString),
        (''funFacts'', ZArray ZString)])]"

definition smart_product_schema :: zod where
  "smart_product_schema =
     ZObject [(''product'', ZObject
       [(''name'', ZString),
        (''category'', ZString),
        (''price'', ZNumber None None),
        (''description'', ZString),
        (''features'', ZArray ZString),
        (''pros'', ZArray ZString),
        (''cons'', ZArray ZString)])]"

definition smart_failed :: response where
  "smart_failed = Response_json 500 (JObj [(''error'', JStr ''Failed to generate response'')])"

text \<open>
  A case of the \<^verbatim>\<open>switch\<close> that awaits \<^verbatim>\<open>generateObject\<close> with a schema and returns
  \<^verbatim>\<open>Response.json({ type, data: object })\<close>; a thrown error, of the template literal
  of the prompt or of the call, reaches the outer \<^verbatim>\<open>catch\<close>.
\<close>

definition smart_object_case ::
  "backend \<Rightarrow> string \<Rightarrow> zod \<Rightarrow> js_error + jsvalue \<Rightarrow> response \<times> call list" where
  "smart_object_case be label schema arg =
     (case arg of
        Inl e \<Rightarrow> (smart_failed, [])
      | Inr p \<Rightarrow>
          (case generateObject be model schema p of
             Inl e \<Rightarrow> (smart_failed, [ObjectCall model schema p])
           | Inr object \<Rightarrow>
               (Response_json 200 (JObj [(''type'', JStr label), (''data'', object)]),
                [ObjectCall model schema p])))"

text \<open>The \<^verbatim>\<open>switch (intent)\<close> of the handler, with the calls each case makes.\<close>

definition smart_switch :: "backend \<Rightarrow> json \<Rightarrow> jsvalue \<Rightarrow> response \<times> call list" where
  "smart_switch be intent prompt =
     (if intent = JStr ''recipe'' then
        smart_object_case be ''recipe'' smart_recipe_schema (Inr prompt)
      else if intent = JStr ''person'' then
        smart_object_case be ''person'' smart_person_schema
          (interpolate ''Provide structured information about: '' prompt)
      else if intent = JStr ''general-question'' then
        (case generateText be model prompt of
           Inl e \<Rightarrow> (smart_failed, [TextCall model prompt])
         | Inr text \<Rightarrow>
             (Response_json 200
                (JObj [(''type'', JStr ''general-question''),
                       (''data'', JObj [(''answer'', JStr text)])]),
              [TextCall model prompt]))
      else if intent = JStr ''product'' then
        smart_object_case be ''product'' smart_product_schema
          (interpolate ''Generate product information for: '' prompt)
      else
        (Response_json 400 (JObj [(''error'', JStr ''Could not determine intent'')]), []))"

text \<open>\<^verbatim>\<open>POST\<close> of \<^verbatim>\<open>generate-object-smart/route.ts\<close>, with the calls made to the backend.\<close>

definition POST_generate_object_smart :: "backend \<Rightarrow> request \<Rightarrow> response \<times> call list" where
  "POST_generate_object_smart be req =
     (case req of
        Inl e \<Rightarrow> (smart_failed, [])
      | Inr body \<Rightarrow>
          (case destructure_prompt body of
             Inl e \<Rightarrow> (smart_failed, [])
           | Inr prompt \<Rightarrow>
               (case smart_classifier_prompt prompt of
                  Inl e \<Rightarrow> (smart_failed, [])
                | Inr text \<Rightarrow>
                    (let classification = EnumCall model smart_labels text in
                     case generateObject_enum be model smart_labels text of
                       Inl e \<Rightarrow> (smart_failed, [classification])
                     | Inr intent \<Rightarrow>
                         (case smart_switch be intent prompt of
                            (resp, calls) \<Rightarrow> (resp, classification # calls))))))"

section \<open>Properties of the responses\<close>

text \<open>A chunk that is one line: it ends with a newline and holds no other.\<close>

definition single_line :: "string \<Rightarrow> bool" where
  "single_line chunk =
     (chunk \<noteq> [] \<and> last chunk = CHR 0x0A \<and> CHR 0x0A \<notin> set (butlast chunk))"

text \<open>
  The type tag of a frame on the wire, for a frame serialised with its \<^verbatim>\<open>type\<close>
  property first, as every frame of the handler and of the frame schema is.
\<close>

definition chunk_type :: "string \<Rightarrow> string option" where
  \<open>chunk_type chunk =
     (if take 9 chunk = ''{"type":"''
      then Some (takeWhile (\<lambda>c. c \<noteq> CHR 0x22) (drop 9 chunk))
      else None)\<close>

text \<open>
  The stream ends with a well-formed \<^verbatim>\<open>error\<close> frame: its last chunk is one line
  whose type tag is \<^verbatim>\<open>error\<close>.
\<close>

definition ends_with_error_frame :: "controller \<Rightarrow> bool" where
  "ends_with_error_frame c =
     (enqueued c \<noteq> [] \<and> single_line (last (enqueued c)) \<and>
      chunk_type (last (enqueued c)) = Some ''error'')"

text \<open>A frame whose \<^verbatim>\<open>type\<close> property is \<^verbatim>\<open>"error"\<close>, wherever the property stands.\<close>

definition error_frame :: "json \<Rightarrow> bool" where
  "error_frame frame =
     (case frame of JObj fs \<Rightarrow> map_of fs ''type'' = Some (JStr ''error'') | _ \<Rightarrow> False)"

text \<open>
  The body of a successful response in the words of the frame schema: the intent line,
  one partial line per object, the complete line.
\<close>

definition spec_success_body :: "string \<Rightarrow> json list \<Rightarrow> string list" where
  \<open>spec_success_body label objects =
     (''{"type":"intent","intent":'' @ quote label @ ''}\<newline>'') #
     map (\<lambda>object. ''{"type":"partial","data":'' @ stringify object @ ''}\<newline>'') objects @
     [''{"type":"complete"}\<newline>'']\<close>

text \<open>
  The frames whose serialisations \<^verbatim>\<open>start\<close> enqueues, before \<^verbatim>\<open>JSON.stringify\<close>,
  and the partial objects they carry.
\<close>

definition relay_frames :: "json \<Rightarrow> partial_stream \<Rightarrow> json list" where
  "relay_frames intent partialObjectStream =
     intent_frame intent # map partial_frame (fst partialObjectStream) @
     (case snd partialObjectStream of None \<Rightarrow> [complete_frame] | Some e \<Rightarrow> [])"

definition frame_data :: "json \<Rightarrow> json option" where
  "frame_data frame =
     (case frame of
        JObj fs \<Rightarrow>
          (if map_of fs ''type'' = Some (JStr ''partial'') then map_of fs ''data'' else None)
      | _ \<Rightarrow> None)"

definition relayed_objects :: "json list \<Rightarrow> json list" where
  "relayed_objects frames = List.map_filter frame_data frames"

text \<open>
  Monotonic refinement of partial objects, in the words of the specification: the
  populated fields of the earlier object are populated in the later one, an array keeps
  its elements in place and may grow, and a scalar is unchanged.
\<close>

fun refines :: "json \<Rightarrow> json \<Rightarrow> bool" where
  "refines (JObj fs) later =
     (case later of
        JObj gs \<Rightarrow>
          list_all (\<lambda>(k, v). case map_of gs k of
                                None \<Rightarrow> False
                              | Some w \<Rightarrow> refines v w) fs
      | _ \<Rightarrow> False)"
| "refines (JArr xs) later =
     (case later of
        JArr ys \<Rightarrow> length xs \<le> length ys \<and> list_all2 refines xs (take (length xs) ys)
      | _ \<Rightarrow> False)"
| "refines earlier later = (earlier = later)"

fun refining_chain :: "json list \<Rightarrow> bool" where
  "refining_chain (x # y # ys) = (refines x y \<and> refining_chain (y # ys))"
| "refining_chain xs = True"

text \<open>
  Validation of a value against a schema, as \<^verbatim>\<open>zod\<close> documents \<^verbatim>\<open>parse\<close> for the
  constructors the handlers use: an object schema accepts unknown keys, and a key may
  be missing only where the schema is optional.
\<close>

fun nat_of_digit :: "digit \<Rightarrow> nat" where
  "nat_of_digit D0 = 0"
| "nat_of_digit D1 = 1"
| "nat_of_digit D2 = 2"
| "nat_of_digit D3 = 3"
| "nat_of_digit D4 = 4"
| "nat_of_digit D5 = 5"
| "nat_of_digit D6 = 6"
| "nat_of_digit D7 = 7"
| "nat_of_digit D8 = 8"
| "nat_of_digit D9 = 9"

text \<open>
  The value of a number is \<open>mantissa x \<times> 10\<^bsup>scale x\<^esup>\<close>; the bounds of a schema are
  integers.
\<close>

definition mantissa :: "number \<Rightarrow> int" where
  "mantissa x =
     (if negative x then - 1 else 1) *
     int (foldl (\<lambda>a d. 10 * a + nat_of_digit d) (whole x) (fraction x))"

definition scale :: "number \<Rightarrow> int" where
  "scale x = (case exponent x of None \<Rightarrow> 0 | Some e \<Rightarrow> e) - int (length (fraction x))"

definition at_least :: "int \<Rightarrow> number \<Rightarrow> bool" where
  "at_least l x =
     (if 0 \<le> scale x then l \<le> mantissa x * 10 ^ nat (scale x)
      else l * 10 ^ nat (- scale x) \<le> mantissa x)"

definition at_most :: "int \<Rightarrow> number \<Rightarrow> bool" where
  "at_most h x =
     (if 0 \<le> scale x then mantissa x * 10 ^ nat (scale x) \<le> h
      else mantissa x \<le> h * 10 ^ nat (- scale x))"

fun accepts_undefined :: "zod \<Rightarrow> bool" where
  "accepts_undefined (ZOptional z) = True"
| "accepts_undefined z = False"

fun satisfies :: "zod \<Rightarrow> json \<Rightarrow> bool" where
  "satisfies ZString v = (case v of JStr s \<Rightarrow> True | _ \<Rightarrow> False)"
| "satisfies (ZNumber lo hi) v =
     (case v of
        JNum n \<Rightarrow> (case lo of None \<Rightarrow> True | Some l \<Rightarrow> at_least l n) \<and>
                  (case hi of None \<Rightarrow> True | Some h \<Rightarrow> at_most h n)
      | _ \<Rightarrow> False)"
| "satisfies (ZEnum vs) v = (case v of JStr s \<Rightarrow> s \<in> set vs | _ \<Rightarrow> False)"
| "satisfies (ZArray z) v = (case v of JArr xs \<Rightarrow> list_all (satisfies z) xs | _ \<Rightarrow> False)"
| "satisfies (ZObject shape) v =
     (case v of
        JObj fs \<Rightarrow>
          list_all (\<lambda>(k, z). case map_of fs k of
                                None \<Rightarrow> accepts_undefined z
                              | Some w \<Rightarrow> satisfies z w) shape
      | _ \<Rightarrow> False)"
| "satisfies (ZOptional z) v = satisfies z v"

text \<open>The last object of a sequence satisfies the schema.\<close>

definition final_valid :: "zod \<Rightarrow> json list \<Rightarrow> bool" where
  "final_valid schema objects = (objects \<noteq> [] \<and> satisfies schema (last objects))"

text \<open>The calls of the classification phase, and the calls that carry a schema.\<close>

fun is_classification :: "call \<Rightarrow> bool" where
  "is_classification (EnumCall m labels p) = True"
| "is_classification c = False"


text \<open>Whether a call to the backend returned, and whether a recorded call did.\<close>

fun returned :: "js_error + 'a \<Rightarrow> bool" where
  "returned (Inl e) = False"
| "returned (Inr v) = True"

fun call_ok :: "backend \<Rightarrow> call \<Rightarrow> bool" where
  "call_ok be (EnumCall m labels p) = returned (generateObject_enum be m labels p)"
| "call_ok be (ObjectCall m schema p) = returned (generateObject be m schema p)"
| "call_ok be (TextCall m p) = returned (generateText be m p)"
| "call_ok be (StreamCall m schema p) = True"

text \<open>
  The registry of generate-object-smart as a lookup table, in the words of the
  specification: the generation registered for a label, for a prompt whose interpolation
  gave the string \<open>interpolated\<close>. A generation is structured, with a schema and the
  prompt handed to \<^verbatim>\<open>generateObject\<close>, or free text, with the prompt handed to
  \<^verbatim>\<open>generateText\<close>.
\<close>

datatype generation = Structured zod jsvalue | Free_text jsvalue

definition smart_registry :: "string \<Rightarrow> jsvalue \<Rightarrow> string \<Rightarrow> generation option" where
  "smart_registry label prompt interpolated =
     (if label = ''recipe'' then Some (Structured smart_recipe_schema prompt)
      else if label = ''person'' then
        Some (Structured smart_person_schema
                (Some (JStr (''Provide structured information about: '' @ interpolated))))
      else if label = ''general-question'' then Some (Free_text prompt)
      else if label = ''product'' then
        Some (Structured smart_product_schema
                (Some (JStr (''Generate product information for: '' @ interpolated))))
      else None)"

text \<open>The call of a generation, and the final object it gives for the response.\<close>

fun generation_call :: "generation \<Rightarrow> call" where
  "generation_call (Structured schema p) = ObjectCall model schema p"
| "generation_call (Free_text p) = TextCall model p"

fun generation_data :: "backend \<Rightarrow> generation \<Rightarrow> js_error + json" where
  "generation_data be (Structured schema p) = generateObject be model schema p"
| "generation_data be (Free_text p) =
     (case generateText be model p of
        Inl e \<Rightarrow> Inl e
      | Inr text \<Rightarrow> Inr (JObj [(''answer'', JStr text)]))"

text \<open>The two shapes of a JSON body of the generate-object-smart handler.\<close>

fun error_body :: "json \<Rightarrow> bool" where
  "error_body (JObj [(k, JStr message)]) = (k = ''error'')"
| "error_body b = False"

fun smart_success_body :: "json \<Rightarrow> bool" where
  "smart_success_body (JObj [(k1, JStr label), (k2, d)]) =
     (k1 = ''type'' \<and> k2 = ''data'' \<and> label \<in> set smart_labels)"
| "smart_success_body b = False"

subsection \<open>Concrete inputs\<close>

text \<open>
  A backend that answers every call of a kind in the same way, for running the handlers
  on concrete inputs.
\<close>

definition const_backend ::
  "js_error + json \<Rightarrow> js_error + json \<Rightarrow> js_error + string \<Rightarrow> partial_stream \<Rightarrow> backend" where
  "const_backend classification object text partialObjectStream =
     \<lparr>generateObject_enum = (\<lambda>m labels p. classification),
      generateObject = (\<lambda>m schema p. object),
      generateText = (\<lambda>m p. text),
      streamObject = (\<lambda>m schema p. partialObjectStream)\<rparr>"

text \<open>A request, its prompt and a sequence of partial objects for running the handlers.\<close>

definition thai_request :: request where
  "thai_request = Inr (JObj [(''prompt'', JStr ''Generate a spicy Thai curry recipe'')])"

definition thai_text :: string where
  "thai_text = ''Generate a spicy Thai curry recipe''"

definition thai_prompt :: jsvalue where
  "thai_prompt = Some (JStr ''Generate a spicy Thai curry recipe'')"

definition thai_partials :: "json list" where
  "thai_partials =
     [JObj [(''recipe'', JObj [(''name'', JStr ''Thai Red Curry'')])],
      JObj [(''recipe'', JObj [(''name'', JStr ''Thai Red Curry''), (''cuisine'', JStr ''Thai'')])]]"

text \<open>A backend that classifies every prompt as a recipe and generates a small object.\<close>

definition recipe_backend :: backend where
  "recipe_backend =
     const_backend (Inr (JStr ''recipe'')) (Inr (JObj [(''recipe'', JObj [(''name'', JStr ''Thai Red Curry'')])]))
       (Inr ''Curry is a dish'') (thai_partials, None)"

text \<open>A backend on which every call fails.\<close>

definition overloaded_backend :: backend where
  "overloaded_backend =
     const_backend (Inl (BackendError ''overloaded'')) (Inl (BackendError ''overloaded''))
       (Inl (BackendError ''overloaded'')) ([], Some (BackendError ''overloaded''))"

text \<open>
  A request whose prompt is an object with a \<^verbatim>\<open>toString\<close> property of its own, and the
  request whose body is \<^verbatim>\<open>null\<close>.
\<close>

definition tostring_request :: request where
  "tostring_request = Inr (JObj [(''prompt'', JObj [(''toString'', JStr ''x'')])])"

definition null_request :: request where
  "null_request = Inr JNull"

text \<open>
  Partial objects as a backend that repairs incomplete JSON text yields them: the string
  under construction grows from one snapshot to the next.
\<close>

definition growing_partials :: "json list" where
  "growing_partials =
     [JObj [(''recipe'', JObj [(''name'', JStr ''Thai'')])],
      JObj [(''recipe'', JObj [(''name'', JStr ''Thai Red Curry'')])]]"

subsection \<open>Decoding aids\<close>

text \<open>
  Readers for the pieces of a serialised value. They are used to show that
  \<^verbatim>\<open>JSON.stringify\<close> loses nothing: distinct values have distinct serialisations.
\<close>

definition is_digit :: "char \<Rightarrow> bool" where
  "is_digit c \<longleftrightarrow> 48 \<le> (of_char c :: nat) \<and> (of_char c :: nat) \<le> 57"

definition digit_value :: "string \<Rightarrow> nat" where
  "digit_value s = foldl (\<lambda>a c. 10 * a + (of_char c - 48)) 0 s"

definition number_char :: "char \<Rightarrow> bool" where
  "number_char c \<longleftrightarrow>
     is_digit c \<or> c = CHR ''.'' \<or> c = CHR ''e'' \<or> c = CHR ''+'' \<or> c = CHR ''-''"

definition digit_end :: "string \<Rightarrow> bool" where
  "digit_end r \<longleftrightarrow> (case r of [] \<Rightarrow> True | c # _ \<Rightarrow> \<not> is_digit c)"

definition terminated :: "string \<Rightarrow> bool" where
  "terminated r \<longleftrightarrow> (case r of [] \<Rightarrow> True | c # _ \<Rightarrow> \<not> number_char c)"

definition unhex :: "char \<Rightarrow> nat" where
  "unhex c = (if is_digit c then of_char c - 48 else of_char c - 87)"

fun unescape :: "string \<Rightarrow> (char \<times> string) option" where
  "unescape [] = None"
| "unescape (a # rest) =
     (if a \<noteq> CHR 0x5C then Some (a, rest)
      else case rest of
        [] \<Rightarrow> None
      | b # rest' \<Rightarrow>
          if b = CHR 0x22 then Some (CHR 0x22, rest')
          else if b = CHR 0x5C then Some (CHR 0x5C, rest')
          else if b = CHR ''b'' then Some (CHR 0x08, rest')
          else if b = CHR ''t'' then Some (CHR 0x09, rest')
          else if b = CHR ''n'' then Some (CHR 0x0A, rest')
          else if b = CHR ''f'' then Some (CHR 0x0C, rest')
          else if b = CHR ''r'' then Some (CHR 0x0D, rest')
          else (case rest' of
                  z1 # z2 # h # l # rest'' \<Rightarrow> Some (char_of (16 * unhex h + unhex l), rest'')
                | _ \<Rightarrow> None))"

definition more :: "string list \<Rightarrow> string" where
  "more ss = concat (map (\<lambda>t. CHR '','' # t) ss)"

fun kind :: "json \<Rightarrow> nat" where
  "kind JNull = 0"
| "kind (JBool b) = 1"
| "kind (JNum n) = 2"
| "kind (JStr s) = 3"
| "kind (JArr xs) = 4"
| "kind (JObj fs) = 5"

definition head_kind :: "char \<Rightarrow> nat" where
  \<open>head_kind c =
     (if c = CHR ''n'' then 0
      else if c = CHR ''t'' \<or> c = CHR ''f'' then 1
      else if c = CHR ''-'' \<or> is_digit c then 2
      else if c = CHR 0x22 then 3
      else if c = CHR ''['' then 4
      else if c = CHR ''{'' then 5
      else 6)\<close>

section \<open>Serialisation lemmas\<close>

lemma char_of_nat_eqD: "char_of (m::nat) = c \<Longrightarrow> m mod 256 = of_char c"
  by (metis of_char_of)

lemma is_digit_char_of: "n < 10 \<Longrightarrow> is_digit (char_of (48 + n))" for n :: nat
  by (simp add: is_digit_def)

lemma digits_all_digit: "c \<in> set (digits n) \<Longrightarrow> is_digit c"
proof (induction n arbitrary: c rule: digits.induct)
  case (1 n)
  show ?case
  proof (cases "n < 10")
    case True
    with "1.prems" show ?thesis by (subst (asm) digits.simps) (simp add: is_digit_char_of)
  next
    case False
    have "is_digit (char_of (48 + n mod 10))" by (rule is_digit_char_of) simp
    with False "1.prems" have "c \<in> set (digits (n div 10)) \<or> c = char_of (48 + n mod 10)"
      by (subst (asm) digits.simps) auto
    with False "1.IH" \<open>is_digit (char_of (48 + n mod 10))\<close> show ?thesis by auto
  qed
qed

lemma digits_nonempty: "digits n \<noteq> []"
  by (subst digits.simps) simp

lemma digits_no_newline: "CHR 0x0A \<notin> set (digits n)"
  using digits_all_digit[of "CHR 0x0A" n] by (auto simp: is_digit_def)

lemma hexdigit_ne_newline: "n < 16 \<Longrightarrow> hexdigit n \<noteq> CHR 0x0A"
proof
  assume "n < 16" and "hexdigit n = CHR 0x0A"
  then have "(if n < 10 then (48 + n) mod 256 else (87 + n) mod 256) = (10::nat)"
    by (auto simp: hexdigit_def dest!: char_of_nat_eqD split: if_splits)
  with \<open>n < 16\<close> show False by (simp split: if_splits)
qed

lemma quote_char_no_newline: "CHR 0x0A \<notin> set (quote_char c)"
proof -
  have "(of_char c :: nat) mod 16 < 16" by simp
  then have m: "hexdigit (of_char c mod 16) \<noteq> CHR 0x0A" by (rule hexdigit_ne_newline)
  have d: "(of_char c :: nat) < 32 \<Longrightarrow> hexdigit (of_char c div 16) \<noteq> CHR 0x0A"
    by (rule hexdigit_ne_newline) simp
  show ?thesis using m d by (auto simp: quote_char_def)
qed

lemma quote_no_newline: "CHR 0x0A \<notin> set (quote s)"
  using quote_char_no_newline by (auto simp: quote_def)

lemma set_join: "set (join sep xs) \<subseteq> set sep \<union> \<Union> (set ` set xs)"
  by (induction sep xs rule: join.induct) auto

lemma fraction_no_newline: "CHR 0x0A \<notin> set (map digit_char ds)"
proof
  assume "CHR 0x0A \<in> set (map digit_char ds)"
  then obtain d where "digit_char d = CHR 0x0A" by auto
  then show False by (cases d) simp_all
qed

lemma number_to_string_no_newline: "CHR 0x0A \<notin> set (number_to_string n)"
  using digits_no_newline fraction_no_newline
  by (auto simp: number_to_string_def fraction_text_def exponent_text_def split: option.splits)

lemma stringify_no_newline: "CHR 0x0A \<notin> set (stringify v)"
proof (induction v)
  case (JArr xs)
  have "set (join '','' (map stringify xs)) \<subseteq> set '','' \<union> \<Union> (set ` set (map stringify xs))"
    by (rule set_join)
  with JArr show ?case by auto
next
  case (JObj fs)
  let ?f = "\<lambda>(k, v). quote k @ '':'' @ stringify v"
  have "set (join '','' (map ?f fs)) \<subseteq> set '','' \<union> \<Union> (set ` set (map ?f fs))"
    by (rule set_join)
  moreover have "CHR 0x0A \<notin> set (?f kv)" if "kv \<in> set fs" for kv
  proof (cases kv)
    case (Pair k v)
    with that have "CHR 0x0A \<notin> set (stringify v)"
      using JObj.IH[of "(k, v)" v] by simp
    with Pair show ?thesis using quote_no_newline[of k] by simp
  qed
  ultimately show ?case by auto
qed (simp_all add: quote_no_newline number_to_string_no_newline)

lemma single_line_frame_chunk: "single_line (frame_chunk frame)"
  by (simp add: single_line_def frame_chunk_def encode_def stringify_no_newline)

lemma intent_chunk:
  \<open>frame_chunk (intent_frame (JStr label)) = ''{"type":"intent","intent":'' @ quote label @ ''}\<newline>''\<close>
  by (simp add: frame_chunk_def intent_frame_def encode_def quote_def quote_char_def)

lemma partial_chunk:
  \<open>frame_chunk (partial_frame p) = ''{"type":"partial","data":'' @ stringify p @ ''}\<newline>''\<close>
  by (simp add: frame_chunk_def partial_frame_def encode_def quote_def quote_char_def)

lemma complete_chunk: \<open>frame_chunk complete_frame = ''{"type":"complete"}\<newline>''\<close>
  by (simp add: frame_chunk_def complete_frame_def encode_def quote_def quote_char_def)

lemma chunk_type_intent: "chunk_type (frame_chunk (intent_frame (JStr label))) = Some ''intent''"
  by (simp add: intent_chunk chunk_type_def)

lemma chunk_type_partial: "chunk_type (frame_chunk (partial_frame p)) = Some ''partial''"
  by (simp add: partial_chunk chunk_type_def)

lemma chunk_type_complete: "chunk_type (frame_chunk complete_frame) = Some ''complete''"
  by (simp add: complete_chunk chunk_type_def)

lemma spec_success_body_frames:
  "spec_success_body label ps =
     frame_chunk (intent_frame (JStr label)) #
     map (\<lambda>p. frame_chunk (partial_frame p)) ps @ [frame_chunk complete_frame]"
  by (simp add: spec_success_body_def intent_chunk partial_chunk complete_chunk)

subsection \<open>Distinct values have distinct serialisations\<close>

lemma digit_value_digits: "digit_value (digits n) = n"
proof (induction n rule: digits.induct)
  case (1 n)
  show ?case
  proof (cases "n < 10")
    case True
    then show ?thesis by (subst digits.simps) (simp add: digit_value_def)
  next
    case False
    then have "digit_value (digits n) = 10 * digit_value (digits (n div 10)) + n mod 10"
      by (subst digits.simps) (simp add: digit_value_def)
    with False 1 show ?thesis by simp
  qed
qed

lemma digits_inj: "digits n = digits m \<Longrightarrow> n = m"
  by (metis digit_value_digits)

lemma takeWhile_digits: "digit_end r \<Longrightarrow> takeWhile is_digit (digits n @ r) = digits n"
  by (cases r) (auto simp: digit_end_def takeWhile_append digits_all_digit)

lemma digits_prefix:
  assumes "digits n @ r = digits m @ r'" "digit_end r" "digit_end r'"
  shows "n = m \<and> r = r'"
proof -
  have "takeWhile is_digit (digits n @ r) = takeWhile is_digit (digits m @ r')"
    using assms(1) by simp
  then have "digits n = digits m" using assms(2,3) by (simp add: takeWhile_digits)
  with assms(1) show ?thesis by (auto dest: digits_inj)
qed

lemma minus_not_digit: "\<not> is_digit CHR ''-''"
  by (simp add: is_digit_def)

lemma hd_digits_digit: "is_digit (hd (digits n))"
  using digits_all_digit[of "hd (digits n)" n] digits_nonempty[of n] by simp

lemma is_digit_digit_char: "is_digit (digit_char d)"
  by (cases d) (simp_all add: is_digit_def)

lemma digit_char_inj: "digit_char d = digit_char d' \<Longrightarrow> d = d'"
  by (cases d; cases d') simp_all

lemma takeWhile_fraction:
  "digit_end r \<Longrightarrow> takeWhile is_digit (map digit_char ds @ r) = map digit_char ds"
  by (cases r) (auto simp: digit_end_def takeWhile_append is_digit_digit_char)

lemma fraction_prefix:
  assumes "map digit_char ds @ r = map digit_char ds' @ r'" "digit_end r" "digit_end r'"
  shows "ds = ds' \<and> r = r'"
proof -
  have "takeWhile is_digit (map digit_char ds @ r) = takeWhile is_digit (map digit_char ds' @ r')"
    using assms(1) by simp
  then have m: "map digit_char ds = map digit_char ds'"
    using assms(2,3) by (simp add: takeWhile_fraction)
  then have "ds = ds'"
    by (rule map_injective) (auto intro: injI digit_char_inj)
  with m assms(1) show ?thesis by simp
qed

lemma terminated_digit_end: "terminated r \<Longrightarrow> digit_end r"
  by (cases r) (simp_all add: terminated_def digit_end_def number_char_def)

lemma exponent_text_prefix:
  assumes "exponent_text e @ r = exponent_text e' @ r'" "terminated r" "terminated r'"
  shows "e = e' \<and> r = r'"
proof (cases e; cases e')
  assume "e = None" "e' = None"
  with assms show ?thesis by (simp add: exponent_text_def)
next
  fix x assume "e = None" "e' = Some x"
  with assms show ?thesis by (auto simp: exponent_text_def terminated_def number_char_def)
next
  fix x assume "e = Some x" "e' = None"
  with assms show ?thesis by (auto simp: exponent_text_def terminated_def number_char_def)
next
  fix x y assume e: "e = Some x" "e' = Some y"
  with assms(1) have s: "(x < 0) = (y < 0)"
    and d: "digits (nat \<bar>x\<bar>) @ r = digits (nat \<bar>y\<bar>) @ r'"
    by (auto simp: exponent_text_def split: if_splits)
  from digits_prefix[OF d] assms(2,3) have "nat \<bar>x\<bar> = nat \<bar>y\<bar>" "r = r'"
    by (auto dest: terminated_digit_end)
  with s e show ?thesis by auto
qed

lemma exponent_text_start:
  assumes "terminated r"
  shows "digit_end (exponent_text e @ r)"
    and "exponent_text e @ r = [] \<or> hd (exponent_text e @ r) \<noteq> CHR ''.''"
  using assms
  by (cases e; cases r;
      simp add: exponent_text_def digit_end_def terminated_def number_char_def is_digit_def)+

lemma fraction_text_prefix:
  assumes "fraction_text f @ t = fraction_text f' @ t'"
    and t: "digit_end t" "t = [] \<or> hd t \<noteq> CHR ''.''"
    and t': "digit_end t'" "t' = [] \<or> hd t' \<noteq> CHR ''.''"
  shows "f = f' \<and> t = t'"
proof (cases "f = []"; cases "f' = []")
  assume "f = []" "f' = []"
  with assms show ?thesis by (simp add: fraction_text_def)
next
  assume "f = []" "f' \<noteq> []"
  with assms(1) t show ?thesis by (auto simp: fraction_text_def)
next
  assume "f \<noteq> []" "f' = []"
  with assms(1) t' show ?thesis by (auto simp: fraction_text_def)
next
  assume "f \<noteq> []" "f' \<noteq> []"
  with assms(1) have "map digit_char f @ t = map digit_char f' @ t'"
    by (simp add: fraction_text_def)
  from fraction_prefix[OF this t(1) t'(1)] show ?thesis .
qed

lemma fraction_text_start: "digit_end t \<Longrightarrow> digit_end (fraction_text f @ t)"
  by (simp add: fraction_text_def digit_end_def is_digit_def)

lemma number_to_string_prefix:
  assumes "number_to_string x @ r = number_to_string y @ r'" "terminated r" "terminated r'"
  shows "x = y \<and> r = r'"
proof -
  let ?tail = "\<lambda>z q. digits (whole z) @ (fraction_text (fraction z) @ (exponent_text (exponent z) @ q))"
  have shape: "number_to_string z @ q = (if negative z then ''-'' else []) @ ?tail z q" for z q
    by (simp add: number_to_string_def)
  have no_minus: "?tail z q \<noteq> CHR ''-'' # u" for z q u
    using hd_digits_digit[of "whole z"] digits_nonempty[of "whole z"] minus_not_digit
    by (cases "digits (whole z)") auto
  from assms(1) have eq: "(if negative x then ''-'' else []) @ ?tail x r =
      (if negative y then ''-'' else []) @ ?tail y r'"
    by (simp only: shape)
  have sign: "negative x = negative y"
  proof (rule ccontr)
    assume "negative x \<noteq> negative y"
    then consider "negative x" "\<not> negative y" | "\<not> negative x" "negative y" by auto
    then show False
    proof cases
      case 1
      with eq have "?tail y r' = CHR ''-'' # ?tail x r" by simp
      with no_minus show False by blast
    next
      case 2
      with eq have "?tail x r = CHR ''-'' # ?tail y r'" by simp
      with no_minus show False by blast
    qed
  qed
  with eq have tails: "?tail x r = ?tail y r'" by (cases "negative y") simp_all
  have ends: "digit_end (fraction_text (fraction z) @ (exponent_text (exponent z) @ q))"
    if "terminated q" for z q
    by (rule fraction_text_start) (rule exponent_text_start(1)[OF that])
  from digits_prefix[OF tails ends[OF assms(2)] ends[OF assms(3)]]
  have whole: "whole x = whole y"
    and rest: "fraction_text (fraction x) @ (exponent_text (exponent x) @ r) =
               fraction_text (fraction y) @ (exponent_text (exponent y) @ r')"
    by simp_all
  from fraction_text_prefix[OF rest exponent_text_start[OF assms(2)] exponent_text_start[OF assms(3)]]
  have frac: "fraction x = fraction y"
    and rest': "exponent_text (exponent x) @ r = exponent_text (exponent y) @ r'"
    by simp_all
  from exponent_text_prefix[OF rest' assms(2,3)] have "exponent x = exponent y" "r = r'"
    by simp_all
  with sign whole frac show ?thesis by (simp add: number.expand)
qed

lemma unhex_hexdigit: "n < 16 \<Longrightarrow> unhex (hexdigit n) = n"
  by (auto simp: unhex_def hexdigit_def is_digit_def)

lemma char_of_div_mod: "char_of (16 * ((of_char c :: nat) div 16) + of_char c mod 16) = c"
  by simp

lemma unescape_quote_char: "unescape (quote_char c @ x) = Some (c, x)"
proof -
  have "(of_char c :: nat) mod 16 < 16" by simp
  then have lo: "unhex (hexdigit (of_char c mod 16)) = of_char c mod 16"
    by (rule unhex_hexdigit)
  have hi: "(of_char c :: nat) < 32 \<Longrightarrow> unhex (hexdigit (of_char c div 16)) = of_char c div 16"
    by (rule unhex_hexdigit) simp
  show ?thesis
    by (simp add: quote_char_def lo hi char_of_div_mod)
qed

lemma quote_char_prefix: "quote_char c @ x = quote_char d @ y \<Longrightarrow> c = d \<and> x = y"
  by (metis unescape_quote_char option.inject prod.inject)

lemma quote_char_not_quote: "quote_char c @ x \<noteq> CHR 0x22 # y"
  by (simp add: quote_char_def)

lemma escaped_prefix:
  "concat (map quote_char s) @ CHR 0x22 # r = concat (map quote_char t) @ CHR 0x22 # r' \<Longrightarrow>
   s = t \<and> r = r'"
proof (induction s arbitrary: t)
  case Nil
  show ?case
  proof (cases t)
    case t: Nil
    with Nil.prems show ?thesis by simp
  next
    case t: (Cons d t')
    with Nil.prems have "quote_char d @ (concat (map quote_char t') @ CHR 0x22 # r') = CHR 0x22 # r"
      by simp
    then show ?thesis using quote_char_not_quote by blast
  qed
next
  case (Cons c s)
  show ?case
  proof (cases t)
    case t: Nil
    with Cons.prems have "quote_char c @ (concat (map quote_char s) @ CHR 0x22 # r) = CHR 0x22 # r'"
      by simp
    then show ?thesis using quote_char_not_quote by blast
  next
    case t: (Cons d t')
    with Cons.prems have "quote_char c @ (concat (map quote_char s) @ CHR 0x22 # r) =
        quote_char d @ (concat (map quote_char t') @ CHR 0x22 # r')" by simp
    then have "c = d" "concat (map quote_char s) @ CHR 0x22 # r =
        concat (map quote_char t') @ CHR 0x22 # r'"
      by (auto dest: quote_char_prefix)
    with Cons.IH[of t'] t show ?thesis by simp
  qed
qed

lemma quote_prefix: "quote s @ r = quote t @ r' \<Longrightarrow> s = t \<and> r = r'"
  using escaped_prefix[of s r t r'] by (simp add: quote_def)

lemma join_comma: "join '','' (s # ss) = s @ more ss"
  by (induction ss arbitrary: s) (simp_all add: more_def)

lemma terminated_more: "\<not> number_char cl \<Longrightarrow> terminated (more ss @ cl # r)"
  by (cases ss) (simp_all add: terminated_def more_def number_char_def is_digit_def)

lemma more_prefix:
  assumes item: "\<And>x y t t'. x \<in> set xs \<Longrightarrow> f x @ t = f y @ t' \<Longrightarrow> terminated t \<Longrightarrow>
      terminated t' \<Longrightarrow> x = y \<and> t = t'"
    and cl: "\<not> number_char cl" "cl \<noteq> CHR '',''"
    and eq: "more (map f xs) @ cl # r = more (map f ys) @ cl # r'"
  shows "xs = ys \<and> r = r'"
  using item eq
proof (induction xs arbitrary: ys)
  case Nil
  with cl show ?case by (cases ys) (simp_all add: more_def)
next
  case (Cons x xs)
  show ?case
  proof (cases ys)
    case Nil
    with Cons.prems(2) cl show ?thesis by (simp add: more_def)
  next
    case ys: (Cons y ys')
    with Cons.prems(2)
    have "f x @ (more (map f xs) @ cl # r) = f y @ (more (map f ys') @ cl # r')"
      by (simp add: more_def)
    then have h: "x = y \<and> more (map f xs) @ cl # r = more (map f ys') @ cl # r'"
      using Cons.prems(1)[of x] terminated_more[OF cl(1)] by simp
    have "\<And>a b t t'. a \<in> set xs \<Longrightarrow> f a @ t = f b @ t' \<Longrightarrow> terminated t \<Longrightarrow>
        terminated t' \<Longrightarrow> a = b \<and> t = t'"
      by (rule Cons.prems(1)) simp_all
    from Cons.IH[OF this] h have "xs = ys' \<and> r = r'" by blast
    with h show ?thesis using ys by simp
  qed
qed

lemma join_prefix:
  assumes item: "\<And>x y t t'. x \<in> set xs \<Longrightarrow> f x @ t = f y @ t' \<Longrightarrow> terminated t \<Longrightarrow>
      terminated t' \<Longrightarrow> x = y \<and> t = t'"
    and start: "\<And>y t t'. f y @ t \<noteq> cl # t'"
    and cl: "\<not> number_char cl" "cl \<noteq> CHR '',''"
    and eq: "join '','' (map f xs) @ cl # r = join '','' (map f ys) @ cl # r'"
  shows "xs = ys \<and> r = r'"
proof (cases xs)
  case Nil
  show ?thesis
  proof (cases ys)
    case Nil
    with \<open>xs = []\<close> eq show ?thesis by simp
  next
    case (Cons y ys')
    with \<open>xs = []\<close> eq have "f y @ (more (map f ys') @ cl # r') = cl # r"
      by (simp add: join_comma)
    with start show ?thesis by blast
  qed
next
  case xs: (Cons x xs')
  show ?thesis
  proof (cases ys)
    case Nil
    with xs eq have "f x @ (more (map f xs') @ cl # r) = cl # r'"
      by (simp add: join_comma)
    with start show ?thesis by blast
  next
    case ys: (Cons y ys')
    with xs eq have "f x @ (more (map f xs') @ cl # r) = f y @ (more (map f ys') @ cl # r')"
      by (simp add: join_comma)
    then have h: "x = y \<and> more (map f xs') @ cl # r = more (map f ys') @ cl # r'"
      using item[of x] xs terminated_more[OF cl(1)] by simp
    have "\<And>a b t t'. a \<in> set xs' \<Longrightarrow> f a @ t = f b @ t' \<Longrightarrow> terminated t \<Longrightarrow>
        terminated t' \<Longrightarrow> a = b \<and> t = t'"
      by (rule item) (simp_all add: xs)
    from more_prefix[where f = f, OF this cl] h have "xs' = ys' \<and> r = r'" by blast
    with h xs ys show ?thesis by simp
  qed
qed

lemma head_kind_digit: "is_digit c \<Longrightarrow> head_kind c = 2"
  by (auto simp: head_kind_def is_digit_def)

lemma number_to_string_head: "\<exists>c rest. number_to_string n = c # rest \<and> head_kind c = 2"
proof (cases "negative n")
  case True
  then show ?thesis by (simp add: number_to_string_def head_kind_def)
next
  case False
  obtain c rest where "digits (whole n) = c # rest"
    using digits_nonempty[of "whole n"] by (cases "digits (whole n)") auto
  moreover from this have "is_digit c" using digits_all_digit[of c "whole n"] by simp
  ultimately show ?thesis using False by (simp add: number_to_string_def head_kind_digit)
qed

lemma stringify_head: "\<exists>c rest. stringify v = c # rest \<and> head_kind c = kind v"
proof (cases v)
  case (JNum n)
  then show ?thesis using number_to_string_head[of n] by simp
qed (auto simp: head_kind_def quote_def is_digit_def)

lemma same_kind:
  assumes "stringify v @ r = stringify w @ r'"
  shows "kind v = kind w"
proof -
  obtain c rest where v: "stringify v = c # rest" "head_kind c = kind v"
    using stringify_head by blast
  obtain d rest' where w: "stringify w = d # rest'" "head_kind d = kind w"
    using stringify_head by blast
  from assms v w show ?thesis by auto
qed

lemma stringify_not_closing:
  "stringify v @ t \<noteq> CHR '']'' # t'"
proof -
  obtain c rest where v: "stringify v = c # rest" "head_kind c = kind v"
    using stringify_head by blast
  have "kind v < 6" by (cases v) simp_all
  with v show ?thesis by (auto simp: head_kind_def is_digit_def)
qed

lemma stringify_prefix:
  "stringify v @ r = stringify w @ r' \<Longrightarrow> terminated r \<Longrightarrow> terminated r' \<Longrightarrow> v = w \<and> r = r'"
proof (induction v arbitrary: w r r')
  case JNull
  from same_kind[OF JNull(1)] have "w = JNull" by (cases w) simp_all
  with JNull show ?case by simp
next
  case (JBool b)
  from same_kind[OF JBool(1)] obtain b' where "w = JBool b'" by (cases w) simp_all
  with JBool show ?case by (cases b; cases b') simp_all
next
  case (JNum n)
  from same_kind[OF JNum(1)] obtain m where "w = JNum m" by (cases w) simp_all
  with JNum number_to_string_prefix[of n r m r'] show ?case by simp
next
  case (JStr s)
  from same_kind[OF JStr(1)] obtain t where "w = JStr t" by (cases w) simp_all
  with JStr quote_prefix[of s r t r'] show ?case by simp
next
  case (JArr xs)
  from same_kind[OF JArr(2)] obtain ys where w: "w = JArr ys" by (cases w) simp_all
  with JArr(2) have eq: "join '','' (map stringify xs) @ CHR '']'' # r =
      join '','' (map stringify ys) @ CHR '']'' # r'" by simp
  have "xs = ys \<and> r = r'"
  proof (rule join_prefix[where f = stringify and cl = "CHR '']''"])
    show "\<And>x y t t'. x \<in> set xs \<Longrightarrow> stringify x @ t = stringify y @ t' \<Longrightarrow> terminated t \<Longrightarrow>
        terminated t' \<Longrightarrow> x = y \<and> t = t'"
      using JArr.IH by blast
    show "\<And>y t t'. stringify y @ t \<noteq> CHR '']'' # t'" by (rule stringify_not_closing)
  qed (use eq in \<open>simp_all add: number_char_def is_digit_def\<close>)
  with w show ?case by simp
next
  case (JObj fs)
  from same_kind[OF JObj(2)] obtain gs where w: "w = JObj gs" by (cases w) simp_all
  let ?f = "\<lambda>(k, v). quote k @ '':'' @ stringify v"
  from w JObj(2) have eq: "join '','' (map ?f fs) @ CHR ''}'' # r =
      join '','' (map ?f gs) @ CHR ''}'' # r'" by simp
  have "fs = gs \<and> r = r'"
  proof (rule join_prefix[where f = ?f and cl = "CHR ''}''"])
    fix x y :: "string \<times> json" and t t'
    assume x: "x \<in> set fs" and e: "?f x @ t = ?f y @ t'" and t: "terminated t" "terminated t'"
    obtain k v where xk: "x = (k, v)" by (cases x)
    obtain k' v' where yk: "y = (k', v')" by (cases y)
    from e xk yk have "quote k @ (CHR '':'' # stringify v @ t) = quote k' @ (CHR '':'' # stringify v' @ t')"
      by simp
    then have k: "k = k'" and "stringify v @ t = stringify v' @ t'"
      by (auto dest: quote_prefix)
    moreover from xk have "v \<in> Basic_BNFs.snds x" by simp
    ultimately have "v = v' \<and> t = t'"
      using JObj.IH[OF x _ _ t] by blast
    with k xk yk show "x = y \<and> t = t'" by simp
  next
    fix y :: "string \<times> json" and t t'
    show "?f y @ t \<noteq> CHR ''}'' # t'"
      by (cases y) (simp add: quote_def)
  qed (use eq in \<open>simp_all add: number_char_def is_digit_def\<close>)
  with w show ?case by simp
qed

lemma stringify_inj: "stringify v = stringify w \<Longrightarrow> v = w"
  using stringify_prefix[of v "[]" w "[]"] by (simp add: terminated_def)

lemma frame_chunk_inj: "frame_chunk f = frame_chunk g \<Longrightarrow> f = g"
  by (simp add: frame_chunk_def encode_def stringify_inj)

lemma map_frame_chunk_inj: "map frame_chunk fs = map frame_chunk gs \<Longrightarrow> fs = gs"
  by (rule map_injective) (auto intro: injI frame_chunk_inj)

subsection \<open>The conversions on concrete values\<close>

lemma number_to_string_decimal:
  "number_to_string (decimal 1999 (- 2)) = ''19.99''"
  "number_to_string (decimal 1 21) = ''1e+21''"
  "number_to_string (decimal 1200 0) = ''1200''"
  "number_to_string (decimal 15 (- 8)) = ''1.5e-7''"
  "number_to_string (decimal 1 (- 6)) = ''0.000001''"
  "number_to_string (decimal (- 5) 0) = ''-5''"
  by code_simp+

lemma to_string_values:
  "to_string (JArr [JNum (Number False 1 [] None), JNull, JArr [JStr ''a'', JBool True]]) =
     Inr ''1,,a,true''"
  "to_string (JObj [(''name'', JStr ''x'')]) = Inr ''[object Object]''"
  "to_string (JObj [(''toString'', JStr ''x'')]) = Inl TypeError"
  "to_string (JArr [JStr ''a'', JObj [(''toString'', JNull)]]) = Inl TypeError"
  "template (Some (JNum (decimal 1 21))) = Inr ''1e+21''"
  "template None = Inr ''undefined''"
  by code_simp+

section \<open>The relay encoder\<close>

lemma relay_readable:
  "state c = Readable \<Longrightarrow>
   relay ps failure c t =
     (failure,
      c\<lparr>enqueued := enqueued c @ map (\<lambda>p. frame_chunk (partial_frame p)) ps\<rparr>,
      t @ concat (map (\<lambda>p. [Received p, Enqueue_called (frame_chunk (partial_frame p))]) ps) @
        [case failure of None \<Rightarrow> Ended | Some e \<Rightarrow> Threw e])"
  by (induction ps arbitrary: c t) (simp_all add: enqueue_def)

lemma start_new_controller:
  "start intent (ps, failure) new_controller =
     (\<lparr>enqueued = frame_chunk (intent_frame intent) #
                   map (\<lambda>p. frame_chunk (partial_frame p)) ps @
                   (case failure of None \<Rightarrow> [frame_chunk complete_frame] | Some e \<Rightarrow> []),
       state = (case failure of None \<Rightarrow> Closed | Some e \<Rightarrow> Errored e)\<rparr>,
      Enqueue_called (frame_chunk (intent_frame intent)) #
      concat (map (\<lambda>p. [Received p, Enqueue_called (frame_chunk (partial_frame p))]) ps) @
      (case failure of
         None \<Rightarrow> [Ended, Enqueue_called (frame_chunk complete_frame), Close_called]
       | Some e \<Rightarrow> [Threw e, Error_called e]))"
  by (cases failure)
     (simp_all add: start_def start_try_def enqueue_def new_controller_def relay_readable
        close_def error_def)

lemma enqueued_relay_frames:
  "frame_chunk (intent_frame intent) # map (\<lambda>p. frame_chunk (partial_frame p)) ps @
     (case failure of None \<Rightarrow> [frame_chunk complete_frame] | Some e \<Rightarrow> []) =
   map frame_chunk (relay_frames intent (ps, failure))"
  by (cases failure) (simp_all add: relay_frames_def)

lemma relayed_objects_relay_frames:
  "relayed_objects (relay_frames (JStr label) (ps, failure)) = ps"
proof -
  have step: "List.map_filter frame_data (map partial_frame ps @ rest) =
          ps @ List.map_filter frame_data rest" for rest
    by (induction ps) (simp_all add: map_filter_simps frame_data_def partial_frame_def)
  have "List.map_filter frame_data (map partial_frame ps) = ps"
    using step[of "[]"] by (simp add: map_filter_simps)
  with step[of "[complete_frame]"] show ?thesis
    by (cases failure)
       (simp_all add: relayed_objects_def relay_frames_def map_filter_simps frame_data_def
          intent_frame_def complete_frame_def)
qed

text \<open>
  C6. For every intent, every finite sequence of partial objects and either end of the
  iteration, \<^verbatim>\<open>start\<close> enqueues the intent frame, and then, for each partial object in
  the order of the generator, receives the object and at once enqueues its frame, before
  it asks the iterator for the next object: the events are one receipt followed by one
  call of \<^verbatim>\<open>enqueue\<close> per object, with nothing held back until the iteration ends or
  fails. After the last object come the end of the iteration, the complete frame and
  \<^verbatim>\<open>close\<close>, or the thrown error and \<^verbatim>\<open>controller.error\<close>. So the chunks enqueued are
  the intent frame, one chunk per partial object in order, each the serialisation of
  \<^verbatim>\<open>{"type":"partial","data":object}\<close> followed by a newline, and the complete frame
  when the iteration ended without error: none is batched, reordered or dropped.
\<close>

theorem relay_encoder_order:
  \<open>snd (start intent (ps, failure) new_controller) =
     Enqueue_called (frame_chunk (intent_frame intent)) #
     concat (map (\<lambda>p. [Received p, Enqueue_called (frame_chunk (partial_frame p))]) ps) @
     (case failure of
        None \<Rightarrow> [Ended, Enqueue_called (frame_chunk complete_frame), Close_called]
      | Some e \<Rightarrow> [Threw e, Error_called e])
   \<and> enqueued (fst (start intent (ps, failure) new_controller)) =
     frame_chunk (intent_frame intent) #
     map (\<lambda>p. frame_chunk (partial_frame p)) ps @
     (case failure of None \<Rightarrow> [frame_chunk complete_frame] | Some e \<Rightarrow> [])
   \<and> frame_chunk (partial_frame p) =
       ''{"type":"partial","data":'' @ stringify p @ ''}\<newline>''\<close>
  by (simp add: start_new_controller partial_chunk)

section \<open>Return points of the handlers\<close>

lemma destructure_prompt_cases:
  obtains (unreadable) "destructure_prompt body = Inl TypeError"
  | (read) prompt where "destructure_prompt body = Inr prompt"
  by (cases body) auto

lemma destructure_prompt_null: "destructure_prompt body = Inl e \<longleftrightarrow> body = JNull \<and> e = TypeError"
  by (cases body) auto

lemma interpolate_template:
  "template prompt = Inr t \<Longrightarrow> interpolate lead prompt = Inr (Some (JStr (lead @ t)))"
  by (simp add: interpolate_def)

lemma stream_classifier_prompt_template:
  "stream_classifier_prompt prompt = Inr text \<longleftrightarrow>
     (\<exists>t. template prompt = Inr t \<and> text = stream_classifier_text t)"
  "stream_classifier_prompt prompt = Inl e \<longleftrightarrow> template prompt = Inl e"
  by (auto simp: stream_classifier_prompt_def split: sum.splits)

lemma smart_classifier_prompt_template:
  "smart_classifier_prompt prompt = Inr text \<longleftrightarrow>
     (\<exists>t. template prompt = Inr t \<and> text = smart_classifier_text t)"
  "smart_classifier_prompt prompt = Inl e \<longleftrightarrow> template prompt = Inl e"
  by (auto simp: smart_classifier_prompt_def split: sum.splits)

lemma stream_switch_template:
  assumes "template prompt = Inr t"
  shows "stream_switch intent prompt =
     (if intent = JStr ''recipe'' then Some (stream_recipe_schema, Inr prompt)
      else if intent = JStr ''person'' then
        Some (stream_person_schema,
              Inr (Some (JStr (''Provide detailed information about: '' @ t))))
      else if intent = JStr ''product'' then
        Some (stream_product_schema,
              Inr (Some (JStr (''Generate detailed product information for: '' @ t))))
      else if intent = JStr ''story'' then
        Some (stream_story_schema, Inr (Some (JStr (''Write a creative story about: '' @ t))))
      else None)"
  using assms by (simp add: stream_switch_def interpolate_template)

lemma stream_switch_Some_iff:
  "(\<exists>d. stream_switch intent prompt = Some d) \<longleftrightarrow> intent \<in> JStr ` set stream_labels"
  by (auto simp: stream_switch_def stream_labels_def)

lemma stream_switch_None_iff:
  "stream_switch intent prompt = None \<longleftrightarrow> intent \<notin> JStr ` set stream_labels"
  by (auto simp: stream_switch_def stream_labels_def)

lemma stream_switch_dispatch:
  assumes "template prompt = Inr t" "intent \<in> JStr ` set stream_labels"
  obtains schema p where "stream_switch intent prompt = Some (schema, Inr p)"
  using assms by (auto simp: stream_switch_template stream_labels_def)

lemma POST_stream_unreadable_Inl: "POST_stream_object be (Inl e) = (stream_failed, [])"
  by (simp add: POST_stream_object_def)

lemma POST_stream_unreadable_body:
  "destructure_prompt body = Inl e \<Longrightarrow> POST_stream_object be (Inr body) = (stream_failed, [])"
  by (simp add: POST_stream_object_def)

lemma POST_stream_template_throws:
  assumes "destructure_prompt body = Inr prompt" "template prompt = Inl e"
  shows "POST_stream_object be (Inr body) = (stream_failed, [])"
  using assms by (simp add: POST_stream_object_def stream_classifier_prompt_def)

lemma POST_stream_object_classifier_throws:
  assumes "destructure_prompt body = Inr prompt" "template prompt = Inr t"
    and "generateObject_enum be model stream_labels (stream_classifier_text t) = Inl e"
  shows "POST_stream_object be (Inr body) =
    (stream_failed, [EnumCall model stream_labels (stream_classifier_text t)])"
  using assms by (simp add: POST_stream_object_def stream_classifier_prompt_def)

lemma POST_stream_object_unknown:
  assumes "destructure_prompt body = Inr prompt" "template prompt = Inr t"
    and "generateObject_enum be model stream_labels (stream_classifier_text t) = Inr intent"
    and "intent \<notin> JStr ` set stream_labels"
  shows "POST_stream_object be (Inr body) =
    (Response_json 400 (JObj [(''error'', JStr ''Unknown intent'')]),
     [EnumCall model stream_labels (stream_classifier_text t)])"
proof -
  from assms(4) have "stream_switch intent prompt = None"
    by (simp add: stream_switch_None_iff)
  with assms(1-3) show ?thesis
    by (simp add: POST_stream_object_def stream_classifier_prompt_def)
qed

lemma POST_stream_object_streams:
  assumes "destructure_prompt body = Inr prompt" "template prompt = Inr t"
    and "generateObject_enum be model stream_labels (stream_classifier_text t) = Inr intent"
    and "stream_switch intent prompt = Some (schema, Inr p)"
    and "streamObject be model schema p = (ps, failure)"
  shows "POST_stream_object be (Inr body) =
    (Response_stream 200 stream_headers
       \<lparr>enqueued = frame_chunk (intent_frame intent) #
                  map (\<lambda>p. frame_chunk (partial_frame p)) ps @
                  (case failure of None \<Rightarrow> [frame_chunk complete_frame] | Some e \<Rightarrow> []),
        state = (case failure of None \<Rightarrow> Closed | Some e \<Rightarrow> Errored e)\<rparr>,
     [EnumCall model stream_labels (stream_classifier_text t), StreamCall model schema p])"
  using assms
  by (simp add: POST_stream_object_def stream_classifier_prompt_def start_new_controller)

text \<open>The return points of the stream-object handler.\<close>

lemma POST_stream_outcomes:
  obtains
    (unreadable) "POST_stream_object be req = (stream_failed, [])"
      "(\<exists>e. req = Inl e) \<or> req = Inr JNull \<or>
       (\<exists>body prompt e. req = Inr body \<and> destructure_prompt body = Inr prompt \<and>
          template prompt = Inl e)"
  | (unclassified) body prompt t e where
      "req = Inr body" "destructure_prompt body = Inr prompt" "template prompt = Inr t"
      "generateObject_enum be model stream_labels (stream_classifier_text t) = Inl e"
      "POST_stream_object be req =
         (stream_failed, [EnumCall model stream_labels (stream_classifier_text t)])"
  | (unknown) body prompt t intent where
      "req = Inr body" "destructure_prompt body = Inr prompt" "template prompt = Inr t"
      "generateObject_enum be model stream_labels (stream_classifier_text t) = Inr intent"
      "intent \<notin> JStr ` set stream_labels"
      "POST_stream_object be req =
         (Response_json 400 (JObj [(''error'', JStr ''Unknown intent'')]),
          [EnumCall model stream_labels (stream_classifier_text t)])"
  | (streaming) body prompt t label schema p ps failure where
      "req = Inr body" "destructure_prompt body = Inr prompt" "template prompt = Inr t"
      "generateObject_enum be model stream_labels (stream_classifier_text t) = Inr (JStr label)"
      "label \<in> set stream_labels"
      "stream_switch (JStr label) prompt = Some (schema, Inr p)"
      "streamObject be model schema p = (ps, failure)"
      "POST_stream_object be req =
         (Response_stream 200 stream_headers
            \<lparr>enqueued = frame_chunk (intent_frame (JStr label)) #
                       map (\<lambda>p. frame_chunk (partial_frame p)) ps @
                       (case failure of None \<Rightarrow> [frame_chunk complete_frame] | Some e \<Rightarrow> []),
             state = (case failure of None \<Rightarrow> Closed | Some e \<Rightarrow> Errored e)\<rparr>,
          [EnumCall model stream_labels (stream_classifier_text t), StreamCall model schema p])"
proof (cases req)
  case (Inl e)
  then show ?thesis by (intro unreadable) (simp_all add: POST_stream_unreadable_Inl)
next
  case (Inr body)
  show ?thesis
  proof (cases body rule: destructure_prompt_cases)
    case unreadable
    with Inr show ?thesis
      by (intro that(1)) (simp_all add: POST_stream_unreadable_body destructure_prompt_null)
  next
    case (read prompt)
    show ?thesis
    proof (cases "template prompt")
      case thrown: (Inl e)
      with Inr read show ?thesis
        by (intro that(1)) (auto simp: POST_stream_template_throws)
    next
      case t: (Inr t)
      show ?thesis
      proof (cases "generateObject_enum be model stream_labels (stream_classifier_text t)")
        case (Inl e)
        with Inr read t show ?thesis
          by (intro unclassified[where body = body and prompt = prompt and t = t and e = e])
             (simp_all add: POST_stream_object_classifier_throws)
      next
        case cls: (Inr intent)
        show ?thesis
        proof (cases "intent \<in> JStr ` set stream_labels")
          case False
          with Inr read t cls show ?thesis
            by (intro unknown[where body = body and prompt = prompt and t = t and intent = intent])
               (simp_all add: POST_stream_object_unknown)
        next
          case True
          then obtain label where l: "intent = JStr label" "label \<in> set stream_labels" by auto
          from stream_switch_dispatch[OF t True]
          obtain schema p where sw: "stream_switch intent prompt = Some (schema, Inr p)" by blast
          obtain ps failure where g: "streamObject be model schema p = (ps, failure)"
            by (cases "streamObject be model schema p")
          from Inr read t cls l sw g show ?thesis
            by (intro streaming[where body = body and prompt = prompt and t = t and label = label
                  and schema = schema and p = p and ps = ps and failure = failure])
               (simp_all add: POST_stream_object_streams[OF read t _ _ g])
        qed
      qed
    qed
  qed
qed


lemma POST_stream_calls:
  assumes "destructure_prompt body = Inr prompt" "stream_classifier_prompt prompt = Inr text"
  shows "snd (POST_stream_object be (Inr body)) = [EnumCall model stream_labels text]
         \<or> (\<exists>schema p. snd (POST_stream_object be (Inr body)) =
               [EnumCall model stream_labels text, StreamCall model schema p])"
proof -
  from assms(2) obtain t where t: "template prompt = Inr t" "text = stream_classifier_text t"
    by (auto simp: stream_classifier_prompt_template)
  show ?thesis
  proof (cases be "Inr body :: request" rule: POST_stream_outcomes)
    case unreadable
    with assms(1) t show ?thesis by (auto simp: destructure_prompt_null)
  qed (use assms(1) t in auto)
qed

lemma POST_stream_classifications:
  assumes "destructure_prompt body = Inr prompt" "stream_classifier_prompt prompt = Inr text"
  shows "filter is_classification (snd (POST_stream_object be (Inr body))) =
           [EnumCall model stream_labels text] \<and>
         take 1 (snd (POST_stream_object be (Inr body))) = [EnumCall model stream_labels text] \<and>
         length (snd (POST_stream_object be (Inr body))) \<le> 2"
  using POST_stream_calls[OF assms, of be] by auto

section \<open>Return points of generate-object-smart\<close>

lemma smart_switch_unknown:
  "intent \<notin> JStr ` set smart_labels \<Longrightarrow>
   smart_switch be intent prompt =
     (Response_json 400 (JObj [(''error'', JStr ''Could not determine intent'')]), [])"
  by (auto simp: smart_switch_def smart_labels_def)

lemma smart_registry_Some_iff:
  "(\<exists>g. smart_registry label prompt t = Some g) \<longleftrightarrow> label \<in> set smart_labels"
  by (auto simp: smart_registry_def smart_labels_def)

lemma call_ok_generation_call: "call_ok be (generation_call g) \<longleftrightarrow> returned (generation_data be g)"
  by (cases g) (auto split: sum.splits)

lemma generation_call_not_classification: "\<not> is_classification (generation_call g)"
  by (cases g) auto

text \<open>A case of the switch is the generation the registry holds for the label.\<close>

lemma smart_switch_registry:
  assumes "template prompt = Inr t" "smart_registry label prompt t = Some g"
  shows "smart_switch be (JStr label) prompt =
     (case generation_data be g of
        Inl e \<Rightarrow> (smart_failed, [generation_call g])
      | Inr d \<Rightarrow>
          (Response_json 200 (JObj [(''type'', JStr label), (''data'', d)]),
           [generation_call g]))"
  using assms
  by (auto simp: smart_switch_def smart_registry_def smart_object_case_def interpolate_template
      split: if_splits sum.splits)

lemma POST_smart_unreadable_Inl: "POST_generate_object_smart be (Inl e) = (smart_failed, [])"
  by (simp add: POST_generate_object_smart_def)

lemma POST_smart_unreadable_body:
  "destructure_prompt body = Inl e \<Longrightarrow> POST_generate_object_smart be (Inr body) = (smart_failed, [])"
  by (simp add: POST_generate_object_smart_def)

lemma POST_smart_template_throws:
  assumes "destructure_prompt body = Inr prompt" "template prompt = Inl e"
  shows "POST_generate_object_smart be (Inr body) = (smart_failed, [])"
  using assms by (simp add: POST_generate_object_smart_def smart_classifier_prompt_def)

lemma POST_smart_classifier_throws:
  assumes "destructure_prompt body = Inr prompt" "template prompt = Inr t"
    and "generateObject_enum be model smart_labels (smart_classifier_text t) = Inl e"
  shows "POST_generate_object_smart be (Inr body) =
    (smart_failed, [EnumCall model smart_labels (smart_classifier_text t)])"
  using assms by (simp add: POST_generate_object_smart_def smart_classifier_prompt_def)

lemma POST_smart_classified:
  assumes "destructure_prompt body = Inr prompt" "template prompt = Inr t"
    and "generateObject_enum be model smart_labels (smart_classifier_text t) = Inr intent"
  shows "POST_generate_object_smart be (Inr body) =
    (fst (smart_switch be intent prompt),
     EnumCall model smart_labels (smart_classifier_text t) # snd (smart_switch be intent prompt))"
  using assms
  by (simp add: POST_generate_object_smart_def smart_classifier_prompt_def split: prod.splits)

text \<open>The return points of the generate-object-smart handler.\<close>

lemma POST_smart_outcomes:
  obtains
    (unreadable) "POST_generate_object_smart be req = (smart_failed, [])"
      "(\<exists>e. req = Inl e) \<or> req = Inr JNull \<or>
       (\<exists>body prompt e. req = Inr body \<and> destructure_prompt body = Inr prompt \<and>
          template prompt = Inl e)"
  | (unclassified) body prompt t e where
      "req = Inr body" "destructure_prompt body = Inr prompt" "template prompt = Inr t"
      "generateObject_enum be model smart_labels (smart_classifier_text t) = Inl e"
      "POST_generate_object_smart be req =
         (smart_failed, [EnumCall model smart_labels (smart_classifier_text t)])"
  | (unknown) body prompt t intent where
      "req = Inr body" "destructure_prompt body = Inr prompt" "template prompt = Inr t"
      "generateObject_enum be model smart_labels (smart_classifier_text t) = Inr intent"
      "intent \<notin> JStr ` set smart_labels"
      "POST_generate_object_smart be req =
         (Response_json 400 (JObj [(''error'', JStr ''Could not determine intent'')]),
          [EnumCall model smart_labels (smart_classifier_text t)])"
  | (failed) body prompt t label g e where
      "req = Inr body" "destructure_prompt body = Inr prompt" "template prompt = Inr t"
      "generateObject_enum be model smart_labels (smart_classifier_text t) = Inr (JStr label)"
      "label \<in> set smart_labels" "smart_registry label prompt t = Some g"
      "generation_data be g = Inl e"
      "POST_generate_object_smart be req =
         (smart_failed, [EnumCall model smart_labels (smart_classifier_text t), generation_call g])"
  | (generated) body prompt t label g d where
      "req = Inr body" "destructure_prompt body = Inr prompt" "template prompt = Inr t"
      "generateObject_enum be model smart_labels (smart_classifier_text t) = Inr (JStr label)"
      "label \<in> set smart_labels" "smart_registry label prompt t = Some g"
      "generation_data be g = Inr d"
      "POST_generate_object_smart be req =
         (Response_json 200 (JObj [(''type'', JStr label), (''data'', d)]),
          [EnumCall model smart_labels (smart_classifier_text t), generation_call g])"
proof (cases req)
  case (Inl e)
  then show ?thesis by (intro unreadable) (simp_all add: POST_smart_unreadable_Inl)
next
  case (Inr body)
  show ?thesis
  proof (cases body rule: destructure_prompt_cases)
    case unreadable
    with Inr show ?thesis
      by (intro that(1)) (simp_all add: POST_smart_unreadable_body destructure_prompt_null)
  next
    case (read prompt)
    show ?thesis
    proof (cases "template prompt")
      case thrown: (Inl e)
      with Inr read show ?thesis
        by (intro that(1)) (auto simp: POST_smart_template_throws)
    next
      case t: (Inr t)
      show ?thesis
      proof (cases "generateObject_enum be model smart_labels (smart_classifier_text t)")
        case (Inl e)
        with Inr read t show ?thesis
          by (intro unclassified[where body = body and prompt = prompt and t = t and e = e])
             (simp_all add: POST_smart_classifier_throws)
      next
        case cls: (Inr intent)
        note post = POST_smart_classified[OF read t cls]
        show ?thesis
        proof (cases "intent \<in> JStr ` set smart_labels")
          case False
          with Inr read t cls post show ?thesis
            by (intro unknown[where body = body and prompt = prompt and t = t and intent = intent])
               (simp_all add: smart_switch_unknown)
        next
          case True
          then obtain label where l: "intent = JStr label" "label \<in> set smart_labels" by auto
          then obtain g where g: "smart_registry label prompt t = Some g"
            using smart_registry_Some_iff[of label prompt t] by blast
          note sw = smart_switch_registry[OF t g, of be]
          show ?thesis
          proof (cases "generation_data be g")
            case (Inl e)
            with Inr read t cls l g post sw show ?thesis
              by (intro failed[where body = body and prompt = prompt and t = t and label = label
                    and g = g and e = e]) simp_all
          next
            case gen: (Inr d)
            with Inr read t cls l g post sw show ?thesis
              by (intro generated[where body = body and prompt = prompt and t = t and label = label
                    and g = g and d = d]) simp_all
          qed
        qed
      qed
    qed
  qed
qed

lemma POST_smart_calls:
  assumes "destructure_prompt body = Inr prompt" "smart_classifier_prompt prompt = Inr text"
  shows "snd (POST_generate_object_smart be (Inr body)) = [EnumCall model smart_labels text]
         \<or> (\<exists>g. \<not> is_classification g \<and> snd (POST_generate_object_smart be (Inr body)) =
               [EnumCall model smart_labels text, g])"
proof -
  from assms(2) obtain t where t: "template prompt = Inr t" "text = smart_classifier_text t"
    by (auto simp: smart_classifier_prompt_template)
  show ?thesis
  proof (cases be "Inr body :: request" rule: POST_smart_outcomes)
    case unreadable
    with assms(1) t show ?thesis by (auto simp: destructure_prompt_null)
  qed (use assms(1) t generation_call_not_classification in auto)
qed

lemma POST_smart_classifications:
  assumes "destructure_prompt body = Inr prompt" "smart_classifier_prompt prompt = Inr text"
  shows "filter is_classification (snd (POST_generate_object_smart be (Inr body))) =
           [EnumCall model smart_labels text] \<and>
         take 1 (snd (POST_generate_object_smart be (Inr body))) =
           [EnumCall model smart_labels text] \<and>
         length (snd (POST_generate_object_smart be (Inr body))) \<le> 2"
  using POST_smart_calls[OF assms, of be] by auto

section \<open>The stream of the stream-object endpoint\<close>

text \<open>
  C2. When the request body is read, the classifier prompt is built, the classifier
  returns a registered label and the partial-object stream ends without error, the
  response is a stream with status 200 whose chunks are the line
  \<^verbatim>\<open>{"type":"intent","intent":label}\<close>, then one line
  \<^verbatim>\<open>{"type":"partial","data":object}\<close> per partial object, then the line
  \<^verbatim>\<open>{"type":"complete"}\<close>, after which the stream is closed. Every chunk is one
  newline-terminated line, and the type tags read intent, partial (once per object),
  complete. The chunks are the serialisations of no other frames than these: one intent
  frame, the partial frames, one complete frame. The fifth assumption names the schema
  and the prompt the switch selects for the label.
\<close>

theorem successful_stream_frames:
  assumes "destructure_prompt body = Inr prompt"
    and "stream_classifier_prompt prompt = Inr text"
    and "generateObject_enum be model stream_labels text = Inr (JStr label)"
    and "label \<in> set stream_labels"
    and "stream_switch (JStr label) prompt = Some (schema, Inr p)"
    and "streamObject be model schema p = (ps, None)"
  shows "fst (POST_stream_object be (Inr body)) =
           Response_stream 200 stream_headers
             \<lparr>enqueued = spec_success_body label ps, state = Closed\<rparr>
         \<and> list_all single_line (spec_success_body label ps)
         \<and> map chunk_type (spec_success_body label ps) =
             Some ''intent'' # replicate (length ps) (Some ''partial'') @ [Some ''complete'']
         \<and> (\<forall>frames. map frame_chunk frames = spec_success_body label ps \<longrightarrow>
               frames = intent_frame (JStr label) # map partial_frame ps @ [complete_frame])"
proof -
  from assms(2) obtain t where t: "template prompt = Inr t" "text = stream_classifier_text t"
    by (auto simp: stream_classifier_prompt_template)
  have "fst (POST_stream_object be (Inr body)) =
           Response_stream 200 stream_headers
             \<lparr>enqueued = spec_success_body label ps, state = Closed\<rparr>"
    using POST_stream_object_streams[OF assms(1) t(1) assms(3)[unfolded t(2)] assms(5,6)]
    by (simp add: spec_success_body_frames)
  moreover have "list_all single_line (spec_success_body label ps)"
    by (simp add: spec_success_body_frames single_line_frame_chunk list_all_iff)
  moreover have "map chunk_type (spec_success_body label ps) =
      Some ''intent'' # replicate (length ps) (Some ''partial'') @ [Some ''complete'']"
    by (simp add: spec_success_body_frames chunk_type_intent chunk_type_partial
        chunk_type_complete map_replicate_const comp_def)
  moreover have "frames = intent_frame (JStr label) # map partial_frame ps @ [complete_frame]"
    if "map frame_chunk frames = spec_success_body label ps" for frames
  proof -
    from that have "map frame_chunk frames =
        map frame_chunk (intent_frame (JStr label) # map partial_frame ps @ [complete_frame])"
      by (simp add: spec_success_body_frames comp_def)
    then show ?thesis by (rule map_frame_chunk_inj)
  qed
  ultimately show ?thesis by blast
qed

theorem successful_stream_frames_witness:
  \<open>destructure_prompt (JObj [(''prompt'', JStr ''Generate a spicy Thai curry recipe'')]) =
      Inr (Some (JStr ''Generate a spicy Thai curry recipe''))
   \<and> stream_classifier_prompt (Some (JStr ''Generate a spicy Thai curry recipe'')) =
      Inr (stream_classifier_text ''Generate a spicy Thai curry recipe'')
   \<and> ''recipe'' \<in> set stream_labels
   \<and> stream_switch (JStr ''recipe'') (Some (JStr ''Generate a spicy Thai curry recipe'')) =
       Some (stream_recipe_schema, Inr (Some (JStr ''Generate a spicy Thai curry recipe'')))
   \<and> fst (POST_stream_object
            (const_backend (Inr (JStr ''recipe'')) (Inl TypeError) (Inl TypeError)
               (thai_partials, None))
            thai_request) =
       Response_stream 200 stream_headers
         \<lparr>enqueued =
            [''{"type":"intent","intent":"recipe"}\<newline>'',
             ''{"type":"partial","data":{"recipe":{"name":"Thai Red Curry"}}}\<newline>'',
             ''{"type":"partial","data":{"recipe":{"name":"Thai Red Curry","cuisine":"Thai"}}}\<newline>'',
             ''{"type":"complete"}\<newline>''],
          state = Closed\<rparr>\<close>
  using successful_stream_frames[of
      "JObj [(''prompt'', JStr ''Generate a spicy Thai curry recipe'')]"
      "Some (JStr ''Generate a spicy Thai curry recipe'')"
      "stream_classifier_text ''Generate a spicy Thai curry recipe''"
      "const_backend (Inr (JStr ''recipe'')) (Inl TypeError) (Inl TypeError) (thai_partials, None)"
      "''recipe''" stream_recipe_schema "Some (JStr ''Generate a spicy Thai curry recipe'')"
      thai_partials]
  by (simp add: const_backend_def stream_labels_def stream_switch_def thai_request_def
      stream_classifier_prompt_def template_def
      spec_success_body_def thai_partials_def quote_def quote_char_def)

text \<open>
  C1 (as amended). When the partial-object stream throws after the intent frame, the
  handler's \<^verbatim>\<open>catch\<close> block errors the stream with \<^verbatim>\<open>controller.error\<close>: the
  chunks enqueued are the intent frame and the partial frames received before the
  failure, the stream ends in the errored state, and its last chunk is not an error
  frame: its type tag is not \<^verbatim>\<open>error\<close>, and it is the serialisation of no frame whose
  \<^verbatim>\<open>type\<close> is \<^verbatim>\<open>"error"\<close>. No terminal frame is written.
\<close>

theorem generator_failure_errors_stream:
  assumes "destructure_prompt body = Inr prompt"
    and "stream_classifier_prompt prompt = Inr text"
    and "generateObject_enum be model stream_labels text = Inr (JStr label)"
    and "stream_switch (JStr label) prompt = Some (schema, Inr p)"
    and "streamObject be model schema p = (ps, Some e)"
  shows "fst (POST_stream_object be (Inr body)) =
           Response_stream 200 stream_headers
             \<lparr>enqueued = frame_chunk (intent_frame (JStr label)) #
                          map (\<lambda>p. frame_chunk (partial_frame p)) ps,
              state = Errored e\<rparr>
         \<and> \<not> ends_with_error_frame
             \<lparr>enqueued = frame_chunk (intent_frame (JStr label)) #
                          map (\<lambda>p. frame_chunk (partial_frame p)) ps,
              state = Errored e\<rparr>
         \<and> (\<forall>frame.
               last (frame_chunk (intent_frame (JStr label)) #
                     map (\<lambda>p. frame_chunk (partial_frame p)) ps) = frame_chunk frame \<longrightarrow>
               \<not> error_frame frame)"
proof -
  let ?chunks = "frame_chunk (intent_frame (JStr label)) # map (\<lambda>p. frame_chunk (partial_frame p)) ps"
  from assms(2) obtain t where t: "template prompt = Inr t" "text = stream_classifier_text t"
    by (auto simp: stream_classifier_prompt_template)
  have "chunk_type (last ?chunks) \<noteq> Some ''error''"
    by (cases ps rule: rev_cases) (simp_all add: chunk_type_intent chunk_type_partial)
  then have "\<not> ends_with_error_frame \<lparr>enqueued = ?chunks, state = Errored e\<rparr>"
    by (simp add: ends_with_error_frame_def)
  moreover have "\<not> error_frame frame" if "last ?chunks = frame_chunk frame" for frame
  proof (cases ps rule: rev_cases)
    case Nil
    with that have "frame = intent_frame (JStr label)" by (auto dest: frame_chunk_inj)
    then show ?thesis by (simp add: error_frame_def intent_frame_def)
  next
    case (snoc qs q)
    with that have "frame = partial_frame q" by (auto dest: frame_chunk_inj)
    then show ?thesis by (simp add: error_frame_def partial_frame_def)
  qed
  ultimately show ?thesis
    using POST_stream_object_streams[OF assms(1) t(1) assms(3)[unfolded t(2)] assms(4,5)]
    by simp
qed

theorem generator_failure_errors_stream_witness:
  \<open>fst (POST_stream_object
          (const_backend (Inr (JStr ''recipe'')) (Inl TypeError) (Inl TypeError)
             (thai_partials, Some (BackendError ''quota'')))
          thai_request) =
     Response_stream 200 stream_headers
       \<lparr>enqueued =
          [''{"type":"intent","intent":"recipe"}\<newline>'',
           ''{"type":"partial","data":{"recipe":{"name":"Thai Red Curry"}}}\<newline>'',
           ''{"type":"partial","data":{"recipe":{"name":"Thai Red Curry","cuisine":"Thai"}}}\<newline>''],
        state = Errored (BackendError ''quota'')\<rparr>
   \<and> \<not> ends_with_error_frame
       \<lparr>enqueued =
          [''{"type":"intent","intent":"recipe"}\<newline>'',
           ''{"type":"partial","data":{"recipe":{"name":"Thai Red Curry"}}}\<newline>'',
           ''{"type":"partial","data":{"recipe":{"name":"Thai Red Curry","cuisine":"Thai"}}}\<newline>''],
        state = Errored (BackendError ''quota'')\<rparr>\<close>
  using generator_failure_errors_stream[of
      "JObj [(''prompt'', JStr ''Generate a spicy Thai curry recipe'')]"
      "Some (JStr ''Generate a spicy Thai curry recipe'')"
      "stream_classifier_text ''Generate a spicy Thai curry recipe''"
      "const_backend (Inr (JStr ''recipe'')) (Inl TypeError) (Inl TypeError)
         (thai_partials, Some (BackendError ''quota''))"
      "''recipe''" stream_recipe_schema "Some (JStr ''Generate a spicy Thai curry recipe'')"
      thai_partials "BackendError ''quota''"]
  by (simp add: const_backend_def stream_switch_def thai_request_def intent_chunk partial_chunk
      stream_classifier_prompt_def template_def thai_partials_def
      quote_def quote_char_def)

text \<open>
  C1 as stated fails: when the classifier returns \<^verbatim>\<open>recipe\<close> and the generator yields
  one partial object and then throws, the handler enqueues the intent line and the
  partial line, and then calls \<^verbatim>\<open>controller.error\<close> and nothing else. The stream is
  errored, and its last chunk is a partial frame, not an error frame.
\<close>

theorem generator_failure_no_error_frame:
  \<open>fst (POST_stream_object
          (const_backend (Inr (JStr ''recipe'')) (Inl TypeError) (Inl TypeError)
             ([JObj [(''recipe'', JObj [(''name'', JStr ''Thai Red Curry'')])]],
              Some (BackendError ''timeout'')))
          thai_request) =
     Response_stream 200 stream_headers
       \<lparr>enqueued =
          [''{"type":"intent","intent":"recipe"}\<newline>'',
           ''{"type":"partial","data":{"recipe":{"name":"Thai Red Curry"}}}\<newline>''],
        state = Errored (BackendError ''timeout'')\<rparr>
   \<and> snd (start (JStr ''recipe'')
            ([JObj [(''recipe'', JObj [(''name'', JStr ''Thai Red Curry'')])]],
             Some (BackendError ''timeout''))
            new_controller) =
       [Enqueue_called ''{"type":"intent","intent":"recipe"}\<newline>'',
        Received (JObj [(''recipe'', JObj [(''name'', JStr ''Thai Red Curry'')])]),
        Enqueue_called ''{"type":"partial","data":{"recipe":{"name":"Thai Red Curry"}}}\<newline>'',
        Threw (BackendError ''timeout''),
        Error_called (BackendError ''timeout'')]
   \<and> chunk_type ''{"type":"partial","data":{"recipe":{"name":"Thai Red Curry"}}}\<newline>'' =
       Some ''partial''
   \<and> \<not> ends_with_error_frame
       \<lparr>enqueued =
          [''{"type":"intent","intent":"recipe"}\<newline>'',
           ''{"type":"partial","data":{"recipe":{"name":"Thai Red Curry"}}}\<newline>''],
        state = Errored (BackendError ''timeout'')\<rparr>\<close>
  by (simp add: POST_stream_object_def const_backend_def thai_request_def
      stream_classifier_prompt_def template_def stream_switch_def start_new_controller
      intent_chunk partial_chunk quote_def quote_char_def ends_with_error_frame_def
      chunk_type_def)

text \<open>
  C7 (as amended). The chunks of a stream response are the serialisations of the intent
  frame, the partial frames and, when the generator ended without error, the complete
  frame; the objects the partial frames carry are the objects the generator yielded,
  unchanged and in the same order, and no other reading of the chunks as frames gives
  other objects. So the relayed sequence is a refining chain exactly when the
  generator's sequence is, and its last object satisfies the schema selected for the
  label exactly when the generator's last object does. The handler checks neither.
\<close>

theorem relay_forwards_partial_objects:
  assumes "destructure_prompt body = Inr prompt"
    and "stream_classifier_prompt prompt = Inr text"
    and "generateObject_enum be model stream_labels text = Inr (JStr label)"
    and "stream_switch (JStr label) prompt = Some (schema, Inr p)"
    and "streamObject be model schema p = (ps, failure)"
  shows "fst (POST_stream_object be (Inr body)) =
           Response_stream 200 stream_headers
             \<lparr>enqueued = map frame_chunk (relay_frames (JStr label) (ps, failure)),
              state = (case failure of None \<Rightarrow> Closed | Some e \<Rightarrow> Errored e)\<rparr>
         \<and> relayed_objects (relay_frames (JStr label) (ps, failure)) = ps
         \<and> (refining_chain (relayed_objects (relay_frames (JStr label) (ps, failure))) \<longleftrightarrow>
              refining_chain ps)
         \<and> (final_valid schema (relayed_objects (relay_frames (JStr label) (ps, failure))) \<longleftrightarrow>
              final_valid schema ps)
         \<and> (\<forall>frames.
               map frame_chunk frames = map frame_chunk (relay_frames (JStr label) (ps, failure)) \<longrightarrow>
               relayed_objects frames = ps)"
proof -
  from assms(2) obtain t where t: "template prompt = Inr t" "text = stream_classifier_text t"
    by (auto simp: stream_classifier_prompt_template)
  have "relayed_objects frames = ps"
    if "map frame_chunk frames = map frame_chunk (relay_frames (JStr label) (ps, failure))"
    for frames
    using map_frame_chunk_inj[OF that] by (simp add: relayed_objects_relay_frames)
  then show ?thesis
    using POST_stream_object_streams[OF assms(1) t(1) assms(3)[unfolded t(2)] assms(4,5)]
    by (simp add: enqueued_relay_frames relayed_objects_relay_frames)
qed

theorem relay_forwards_partial_objects_witness:
  \<open>stream_switch (JStr ''recipe'') thai_prompt = Some (stream_recipe_schema, Inr thai_prompt)
   \<and> fst (POST_stream_object recipe_backend thai_request) =
       Response_stream 200 stream_headers
         \<lparr>enqueued = map frame_chunk (relay_frames (JStr ''recipe'') (thai_partials, None)),
          state = Closed\<rparr>
   \<and> relayed_objects (relay_frames (JStr ''recipe'') (thai_partials, None)) = thai_partials
   \<and> refining_chain thai_partials
   \<and> refining_chain (relayed_objects (relay_frames (JStr ''recipe'') (thai_partials, None)))\<close>
  using relay_forwards_partial_objects[of
      "JObj [(''prompt'', JStr ''Generate a spicy Thai curry recipe'')]" thai_prompt
      "stream_classifier_text ''Generate a spicy Thai curry recipe''"
      recipe_backend "''recipe''" stream_recipe_schema thai_prompt thai_partials None]
  by (simp add: recipe_backend_def const_backend_def thai_request_def thai_prompt_def
      stream_classifier_prompt_def template_def
      stream_switch_def thai_partials_def)

text \<open>
  C7 as stated fails: on a generator whose second snapshot completes the string of the
  first, the handler relays both objects although the second alters a scalar of the
  first, and the last object relayed does not satisfy the recipe schema.
\<close>

theorem relay_does_not_enforce_refinement:
  \<open>fst (POST_stream_object
          (const_backend (Inr (JStr ''recipe'')) (Inl TypeError) (Inl TypeError)
             (growing_partials, None))
          thai_request) =
     Response_stream 200 stream_headers
       \<lparr>enqueued =
          [''{"type":"intent","intent":"recipe"}\<newline>'',
           ''{"type":"partial","data":{"recipe":{"name":"Thai"}}}\<newline>'',
           ''{"type":"partial","data":{"recipe":{"name":"Thai Red Curry"}}}\<newline>'',
           ''{"type":"complete"}\<newline>''],
        state = Closed\<rparr>
   \<and> relayed_objects (relay_frames (JStr ''recipe'') (growing_partials, None)) = growing_partials
   \<and> \<not> refining_chain (relayed_objects (relay_frames (JStr ''recipe'') (growing_partials, None)))
   \<and> \<not> final_valid stream_recipe_schema
         (relayed_objects (relay_frames (JStr ''recipe'') (growing_partials, None)))\<close>
proof -
  have "fst (POST_stream_object
          (const_backend (Inr (JStr ''recipe'')) (Inl TypeError) (Inl TypeError)
             (growing_partials, None))
          thai_request) =
     Response_stream 200 stream_headers
       \<lparr>enqueued = frame_chunk (intent_frame (JStr ''recipe'')) #
                    map (\<lambda>p. frame_chunk (partial_frame p)) growing_partials @
                    [frame_chunk complete_frame],
        state = Closed\<rparr>"
    by (simp add: POST_stream_object_def const_backend_def thai_request_def thai_prompt_def
        stream_classifier_prompt_def template_def
        stream_switch_def start_new_controller)
  moreover have "\<not> refining_chain growing_partials"
    by (simp add: growing_partials_def)
  moreover have "\<not> final_valid stream_recipe_schema growing_partials"
    by (simp add: growing_partials_def final_valid_def stream_recipe_schema_def)
  ultimately show ?thesis
    by (simp add: relayed_objects_relay_frames intent_chunk partial_chunk complete_chunk
        growing_partials_def quote_def quote_char_def)
qed

section \<open>Classification and dispatch\<close>

text \<open>
  C3. In both handlers, when the classifier returns a value that is not one of the
  handler's labels, the response is the HTTP 400 JSON error body of the \<^verbatim>\<open>default\<close>
  branch and the classification is the only call made: no schema is dispatched.
  Conversely, every stream response of stream-object starts with the intent frame of a
  registered label, and every 200 body of generate-object-smart carries a registered
  label in its \<^verbatim>\<open>type\<close> field.
\<close>

theorem unknown_label_is_400:
  "(destructure_prompt body = Inr prompt \<and>
    stream_classifier_prompt prompt = Inr text \<and>
    generateObject_enum be model stream_labels text = Inr intent \<and>
    intent \<notin> JStr ` set stream_labels \<longrightarrow>
      POST_stream_object be (Inr body) =
        (Response_json 400 (JObj [(''error'', JStr ''Unknown intent'')]),
         [EnumCall model stream_labels text]))
   \<and> (destructure_prompt body = Inr prompt \<and>
    smart_classifier_prompt prompt = Inr text' \<and>
    generateObject_enum be model smart_labels text' = Inr intent' \<and>
    intent' \<notin> JStr ` set smart_labels \<longrightarrow>
      POST_generate_object_smart be (Inr body) =
        (Response_json 400 (JObj [(''error'', JStr ''Could not determine intent'')]),
         [EnumCall model smart_labels text']))
   \<and> (fst (POST_stream_object be req) = Response_stream s h c \<longrightarrow>
        (\<exists>label \<in> set stream_labels.
           hd (enqueued c) = frame_chunk (intent_frame (JStr label))))
   \<and> (fst (POST_generate_object_smart be req) = Response_json 200 b \<longrightarrow>
        (\<exists>label \<in> set smart_labels. \<exists>d.
           b = JObj [(''type'', JStr label), (''data'', d)]))"
proof (intro conjI impI)
  assume a: "destructure_prompt body = Inr prompt \<and>
    stream_classifier_prompt prompt = Inr text \<and>
    generateObject_enum be model stream_labels text = Inr intent \<and>
    intent \<notin> JStr ` set stream_labels"
  then obtain t where t: "template prompt = Inr t" "text = stream_classifier_text t"
    by (auto simp: stream_classifier_prompt_template)
  with a show "POST_stream_object be (Inr body) =
        (Response_json 400 (JObj [(''error'', JStr ''Unknown intent'')]),
         [EnumCall model stream_labels text])"
    by (simp add: POST_stream_object_unknown)
next
  assume a: "destructure_prompt body = Inr prompt \<and>
    smart_classifier_prompt prompt = Inr text' \<and>
    generateObject_enum be model smart_labels text' = Inr intent' \<and>
    intent' \<notin> JStr ` set smart_labels"
  then obtain t where t: "template prompt = Inr t" "text' = smart_classifier_text t"
    by (auto simp: smart_classifier_prompt_template)
  with a show "POST_generate_object_smart be (Inr body) =
        (Response_json 400 (JObj [(''error'', JStr ''Could not determine intent'')]),
         [EnumCall model smart_labels text'])"
    by (simp add: POST_smart_classified smart_switch_unknown)
next
  assume a: "fst (POST_stream_object be req) = Response_stream s h c"
  show "\<exists>label \<in> set stream_labels. hd (enqueued c) = frame_chunk (intent_frame (JStr label))"
  proof (cases be req rule: POST_stream_outcomes)
    case unreadable
    with a show ?thesis by (simp add: stream_failed_def)
  next
    case (unclassified body prompt t e)
    with a show ?thesis by (simp add: stream_failed_def)
  next
    case (unknown body prompt t intent)
    with a show ?thesis by simp
  next
    case (streaming body prompt t label schema p ps failure)
    with a show ?thesis by auto
  qed
next
  assume a: "fst (POST_generate_object_smart be req) = Response_json 200 b"
  show "\<exists>label \<in> set smart_labels. \<exists>d. b = JObj [(''type'', JStr label), (''data'', d)]"
  proof (cases be req rule: POST_smart_outcomes)
    case unreadable
    with a show ?thesis by (simp add: smart_failed_def)
  next
    case (unclassified body prompt t e)
    with a show ?thesis by (simp add: smart_failed_def)
  next
    case (unknown body prompt t intent)
    with a show ?thesis by simp
  next
    case (failed body prompt t label g e)
    with a show ?thesis by (simp add: smart_failed_def)
  next
    case (generated body prompt t label g d)
    with a show ?thesis by auto
  qed
qed

theorem unknown_label_is_400_witness:
  "JStr ''poem'' \<notin> JStr ` set stream_labels
   \<and> JStr ''poem'' \<notin> JStr ` set smart_labels
   \<and> POST_stream_object
        (const_backend (Inr (JStr ''poem'')) (Inl TypeError) (Inl TypeError) ([], None))
        thai_request =
       (Response_json 400 (JObj [(''error'', JStr ''Unknown intent'')]),
        [EnumCall model stream_labels (stream_classifier_text thai_text)])
   \<and> POST_generate_object_smart
        (const_backend (Inr (JStr ''poem'')) (Inl TypeError) (Inl TypeError) ([], None))
        thai_request =
       (Response_json 400 (JObj [(''error'', JStr ''Could not determine intent'')]),
        [EnumCall model smart_labels (smart_classifier_text thai_text)])
   \<and> fst (POST_stream_object
        (const_backend (Inr (JStr ''recipe'')) (Inr (JObj [])) (Inl TypeError) (thai_partials, None))
        thai_request) =
       Response_stream 200 stream_headers
         (fst (start (JStr ''recipe'') (thai_partials, None) new_controller))
   \<and> (\<exists>label \<in> set stream_labels.
         hd (enqueued (fst (start (JStr ''recipe'') (thai_partials, None) new_controller))) =
           frame_chunk (intent_frame (JStr label)))
   \<and> fst (POST_generate_object_smart
        (const_backend (Inr (JStr ''recipe'')) (Inr (JObj [])) (Inl TypeError) (thai_partials, None))
        thai_request) =
       Response_json 200 (JObj [(''type'', JStr ''recipe''), (''data'', JObj [])])
   \<and> (\<exists>label \<in> set smart_labels. \<exists>d.
         JObj [(''type'', JStr ''recipe''), (''data'', JObj [])] =
         JObj [(''type'', JStr label), (''data'', d)])"
  using unknown_label_is_400[of
      "JObj [(''prompt'', JStr ''Generate a spicy Thai curry recipe'')]" thai_prompt
      "stream_classifier_text thai_text"
      "const_backend (Inr (JStr ''poem'')) (Inl TypeError) (Inl TypeError) ([], None)"
      "JStr ''poem''" "smart_classifier_text thai_text" "JStr ''poem''"]
    unknown_label_is_400[of _ _ _
      "const_backend (Inr (JStr ''recipe'')) (Inr (JObj [])) (Inl TypeError) (thai_partials, None)"
      _ _ _ thai_request 200 stream_headers
      "fst (start (JStr ''recipe'') (thai_partials, None) new_controller)"
      "JObj [(''type'', JStr ''recipe''), (''data'', JObj [])]"]
  by (simp add: const_backend_def stream_labels_def smart_labels_def thai_request_def
      POST_stream_object_def POST_generate_object_smart_def stream_switch_def
      stream_classifier_prompt_def smart_classifier_prompt_def template_def thai_text_def
      smart_switch_def smart_object_case_def thai_prompt_def)

text \<open>
  C4 (as amended). In both handlers, when the classifier call throws, the outer
  \<^verbatim>\<open>catch\<close> returns an HTTP 500 JSON body with an \<^verbatim>\<open>error\<close> string, and the
  failed classification is the only call made to the backend: it is not retried.
\<close>

theorem classification_failure_is_500:
  assumes "destructure_prompt body = Inr prompt"
  shows "(stream_classifier_prompt prompt = Inr text \<and>
          generateObject_enum be model stream_labels text = Inl e \<longrightarrow>
          POST_stream_object be (Inr body) =
            (Response_json 500 (JObj [(''error'', JStr ''Failed to stream object'')]),
             [EnumCall model stream_labels text]))
       \<and> (smart_classifier_prompt prompt = Inr text' \<and>
          generateObject_enum be model smart_labels text' = Inl e' \<longrightarrow>
          POST_generate_object_smart be (Inr body) =
            (Response_json 500 (JObj [(''error'', JStr ''Failed to generate response'')]),
             [EnumCall model smart_labels text']))"
  using assms
  by (auto simp: stream_classifier_prompt_template smart_classifier_prompt_template
      POST_stream_object_classifier_throws POST_smart_classifier_throws
      stream_failed_def smart_failed_def)

theorem classification_failure_is_500_witness:
  "destructure_prompt (JObj [(''prompt'', JStr ''Generate a spicy Thai curry recipe'')]) =
     Inr thai_prompt
   \<and> stream_classifier_prompt thai_prompt = Inr (stream_classifier_text thai_text)
   \<and> smart_classifier_prompt thai_prompt = Inr (smart_classifier_text thai_text)
   \<and> generateObject_enum overloaded_backend model stream_labels
        (stream_classifier_text thai_text) = Inl (BackendError ''overloaded'')
   \<and> generateObject_enum overloaded_backend model smart_labels
        (smart_classifier_text thai_text) = Inl (BackendError ''overloaded'')
   \<and> POST_stream_object overloaded_backend thai_request =
       (Response_json 500 (JObj [(''error'', JStr ''Failed to stream object'')]),
        [EnumCall model stream_labels (stream_classifier_text thai_text)])
   \<and> POST_generate_object_smart overloaded_backend thai_request =
       (Response_json 500 (JObj [(''error'', JStr ''Failed to generate response'')]),
        [EnumCall model smart_labels (smart_classifier_text thai_text)])"
  using classification_failure_is_500[of
      "JObj [(''prompt'', JStr ''Generate a spicy Thai curry recipe'')]" thai_prompt
      "stream_classifier_text thai_text"
      overloaded_backend "BackendError ''overloaded''"
      "smart_classifier_text thai_text" "BackendError ''overloaded''"]
  by (simp add: overloaded_backend_def const_backend_def thai_request_def thai_prompt_def
      stream_classifier_prompt_def smart_classifier_prompt_def template_def thai_text_def)

text \<open>
  C4 as stated fails: on a backend whose classifier call throws, both handlers answer
  with status 500, not 400.
\<close>

theorem classification_failure_not_400:
  "generateObject_enum overloaded_backend model stream_labels
        (stream_classifier_text thai_text) = Inl (BackendError ''overloaded'')
   \<and> fst (POST_stream_object overloaded_backend thai_request) =
       Response_json 500 (JObj [(''error'', JStr ''Failed to stream object'')])
   \<and> status (fst (POST_stream_object overloaded_backend thai_request)) \<noteq> 400
   \<and> generateObject_enum overloaded_backend model smart_labels
        (smart_classifier_text thai_text) = Inl (BackendError ''overloaded'')
   \<and> fst (POST_generate_object_smart overloaded_backend thai_request) =
       Response_json 500 (JObj [(''error'', JStr ''Failed to generate response'')])
   \<and> status (fst (POST_generate_object_smart overloaded_backend thai_request)) \<noteq> 400"
  by (simp add: overloaded_backend_def const_backend_def thai_request_def
      stream_classifier_prompt_def smart_classifier_prompt_def template_def
      POST_stream_object_def POST_generate_object_smart_def stream_failed_def smart_failed_def)

text \<open>
  C8 (as amended). For every request, the calls to the backend hold at most one
  classification. When the handler reads a prompt from the request (the body is JSON
  and not \<^verbatim>\<open>null\<close>) and the prompt can be interpolated into the classifier's prompt
  text, the calls hold exactly one classification, the enum-constrained
  \<^verbatim>\<open>generateObject\<close> over the handler's label list, and it is the first call; at most
  one call follows it, the generation the switch dispatches to. When the interpolation
  throws, when the body is \<^verbatim>\<open>null\<close> and when the body cannot be read, the handler
  answers with status 500 and has made no call at all.
\<close>

theorem classification_called_once:
  "length (filter is_classification (snd (POST_stream_object be req))) \<le> 1
   \<and> length (filter is_classification (snd (POST_generate_object_smart be req))) \<le> 1
   \<and> (destructure_prompt body = Inr prompt \<and> template prompt = Inr t \<longrightarrow>
        filter is_classification (snd (POST_stream_object be (Inr body))) =
          [EnumCall model stream_labels (stream_classifier_text t)] \<and>
        take 1 (snd (POST_stream_object be (Inr body))) =
          [EnumCall model stream_labels (stream_classifier_text t)] \<and>
        length (snd (POST_stream_object be (Inr body))) \<le> 2 \<and>
        filter is_classification (snd (POST_generate_object_smart be (Inr body))) =
          [EnumCall model smart_labels (smart_classifier_text t)] \<and>
        take 1 (snd (POST_generate_object_smart be (Inr body))) =
          [EnumCall model smart_labels (smart_classifier_text t)] \<and>
        length (snd (POST_generate_object_smart be (Inr body))) \<le> 2)
   \<and> (destructure_prompt body = Inr prompt \<and> template prompt = Inl e \<longrightarrow>
        POST_stream_object be (Inr body) =
          (Response_json 500 (JObj [(''error'', JStr ''Failed to stream object'')]), []) \<and>
        POST_generate_object_smart be (Inr body) =
          (Response_json 500 (JObj [(''error'', JStr ''Failed to generate response'')]), []))
   \<and> (destructure_prompt body = Inl e \<longrightarrow>
        POST_stream_object be (Inr body) =
          (Response_json 500 (JObj [(''error'', JStr ''Failed to stream object'')]), []) \<and>
        POST_generate_object_smart be (Inr body) =
          (Response_json 500 (JObj [(''error'', JStr ''Failed to generate response'')]), []))
   \<and> POST_stream_object be (Inl e) =
        (Response_json 500 (JObj [(''error'', JStr ''Failed to stream object'')]), [])
   \<and> POST_generate_object_smart be (Inl e) =
        (Response_json 500 (JObj [(''error'', JStr ''Failed to generate response'')]), [])"
proof -
  have "length (filter is_classification (snd (POST_stream_object be req))) \<le> 1"
    by (cases be req rule: POST_stream_outcomes) simp_all
  moreover have "length (filter is_classification (snd (POST_generate_object_smart be req))) \<le> 1"
    by (cases be req rule: POST_smart_outcomes)
       (simp_all add: generation_call_not_classification)
  moreover have "stream_classifier_prompt prompt = Inr (stream_classifier_text t)"
      "smart_classifier_prompt prompt = Inr (smart_classifier_text t)"
    if "template prompt = Inr t"
    using that by (simp_all add: stream_classifier_prompt_def smart_classifier_prompt_def)
  ultimately show ?thesis
    using POST_stream_classifications[of body prompt "stream_classifier_text t" be]
      POST_smart_classifications[of body prompt "smart_classifier_text t" be]
      POST_stream_template_throws[of body prompt e be]
      POST_smart_template_throws[of body prompt e be]
      POST_stream_unreadable_body[of body e be] POST_smart_unreadable_body[of body e be]
    by (simp add: POST_stream_unreadable_Inl POST_smart_unreadable_Inl
        stream_failed_def smart_failed_def)
qed

theorem classification_called_once_witness:
  "destructure_prompt (JObj [(''prompt'', JStr ''Generate a spicy Thai curry recipe'')]) =
     Inr thai_prompt
   \<and> template thai_prompt = Inr thai_text
   \<and> snd (POST_stream_object recipe_backend thai_request) =
       [EnumCall model stream_labels (stream_classifier_text thai_text),
        StreamCall model stream_recipe_schema thai_prompt]
   \<and> filter is_classification (snd (POST_stream_object recipe_backend thai_request)) =
       [EnumCall model stream_labels (stream_classifier_text thai_text)]
   \<and> snd (POST_generate_object_smart recipe_backend thai_request) =
       [EnumCall model smart_labels (smart_classifier_text thai_text),
        ObjectCall model smart_recipe_schema thai_prompt]
   \<and> filter is_classification (snd (POST_generate_object_smart recipe_backend thai_request)) =
       [EnumCall model smart_labels (smart_classifier_text thai_text)]
   \<and> destructure_prompt (JObj [(''prompt'', JObj [(''toString'', JStr ''x'')])]) =
       Inr (Some (JObj [(''toString'', JStr ''x'')]))
   \<and> template (Some (JObj [(''toString'', JStr ''x'')])) = Inl TypeError
   \<and> snd (POST_stream_object recipe_backend tostring_request) = []
   \<and> destructure_prompt JNull = Inl TypeError
   \<and> snd (POST_generate_object_smart recipe_backend null_request) = []"
  using classification_called_once[of recipe_backend thai_request
      "JObj [(''prompt'', JStr ''Generate a spicy Thai curry recipe'')]" thai_prompt thai_text
      TypeError]
    classification_called_once[of recipe_backend tostring_request
      "JObj [(''prompt'', JObj [(''toString'', JStr ''x'')])]"
      "Some (JObj [(''toString'', JStr ''x'')])" "[]" TypeError]
    classification_called_once[of recipe_backend null_request JNull None "[]" TypeError]
  by (simp add: recipe_backend_def const_backend_def thai_request_def thai_prompt_def
      thai_text_def tostring_request_def null_request_def template_def
      stream_classifier_prompt_def smart_classifier_prompt_def
      POST_stream_object_def POST_generate_object_smart_def stream_switch_def
      smart_switch_def smart_object_case_def)

text \<open>
  C8 as stated fails: for the body \<^verbatim>\<open>{"prompt":{"toString":"x"}}\<close> the prompt is an
  object whose own \<^verbatim>\<open>toString\<close> is not a function, the template literal of the
  classifier prompt throws a \<^verbatim>\<open>TypeError\<close> inside the \<^verbatim>\<open>try\<close>, and both handlers
  answer with status 500 without having called the backend: the classifier phase makes
  no call.
\<close>

theorem classification_not_called:
  "tostring_request = Inr (JObj [(''prompt'', JObj [(''toString'', JStr ''x'')])])
   \<and> destructure_prompt (JObj [(''prompt'', JObj [(''toString'', JStr ''x'')])]) =
       Inr (Some (JObj [(''toString'', JStr ''x'')]))
   \<and> stream_classifier_prompt (Some (JObj [(''toString'', JStr ''x'')])) = Inl TypeError
   \<and> smart_classifier_prompt (Some (JObj [(''toString'', JStr ''x'')])) = Inl TypeError
   \<and> POST_stream_object recipe_backend tostring_request =
       (Response_json 500 (JObj [(''error'', JStr ''Failed to stream object'')]), [])
   \<and> POST_generate_object_smart recipe_backend tostring_request =
       (Response_json 500 (JObj [(''error'', JStr ''Failed to generate response'')]), [])
   \<and> filter is_classification (snd (POST_stream_object recipe_backend tostring_request)) = []
   \<and> filter is_classification (snd (POST_generate_object_smart recipe_backend tostring_request)) = []"
  by (simp add: tostring_request_def POST_stream_object_def POST_generate_object_smart_def
      stream_classifier_prompt_def smart_classifier_prompt_def template_def
      stream_failed_def smart_failed_def)

text \<open>
  C9 (as amended). Neither handler validates the prompt. For every JSON body other than
  \<^verbatim>\<open>null\<close> that has no \<^verbatim>\<open>prompt\<close> property (an object without the property, an
  array, a string, a number, a boolean), or whose \<^verbatim>\<open>prompt\<close> is the empty string, the
  first thing the handler does is the classification call, whose prompt text holds the
  interpolated value between the double quotes: \<^verbatim>\<open>undefined\<close> for the missing
  property, nothing for the empty string. The status of the response is 200, 400 or
  500, and what decides it is the backend, not the prompt: in stream-object it is 400
  exactly when the classifier returned a value outside the label list, 500 exactly when
  the classifier call threw, and 200 exactly when the classifier returned a registered
  label; in generate-object-smart it is 400 exactly when the classifier returned a value
  outside the label list, 500 exactly when a call to the backend threw, and 200 exactly
  when the classifier returned a registered label and no call threw. For every request
  at all, the status of either handler is 200, 400 or 500.
\<close>

theorem prompt_not_validated:
  assumes "destructure_prompt body = Inr None \<or> destructure_prompt body = Inr (Some (JStr []))"
  shows \<open>take 1 (snd (POST_stream_object be (Inr body))) =
           [EnumCall model stream_labels
              (''Classify what the user is asking for: "'' @
               (if destructure_prompt body = Inr None then ''undefined'' else []) @
               ''"\<newline>      \<newline>'' @
               ''      - recipe: User wants a recipe or cooking instructions\<newline>'' @
               ''      - person: User is asking about a person\<newline>'' @
               ''      - product: User wants product information\<newline>'' @
               ''      - story: User wants a creative story'')]
         \<and> take 1 (snd (POST_generate_object_smart be (Inr body))) =
           [EnumCall model smart_labels
              (''Classify what the user is asking for: "'' @
               (if destructure_prompt body = Inr None then ''undefined'' else []) @
               ''"\<newline>      \<newline>'' @
               ''      - recipe: User wants a recipe or cooking instructions\<newline>'' @
               ''      - person: User is asking about a person\<newline>'' @
               ''      - general-question: User is asking a general knowledge question\<newline>'' @
               ''      - product: User wants product information'')]
         \<and> status (fst (POST_stream_object be (Inr body))) \<in> {200, 400, 500}
         \<and> (status (fst (POST_stream_object be (Inr body))) = 400 \<longleftrightarrow>
              (\<exists>intent. generateObject_enum be model stream_labels
                 (stream_classifier_text
                    (if destructure_prompt body = Inr None then ''undefined'' else [])) =
                 Inr intent \<and> intent \<notin> JStr ` set stream_labels))
         \<and> (status (fst (POST_stream_object be (Inr body))) = 500 \<longleftrightarrow>
              (\<exists>e. generateObject_enum be model stream_labels
                 (stream_classifier_text
                    (if destructure_prompt body = Inr None then ''undefined'' else [])) =
                 Inl e))
         \<and> (status (fst (POST_stream_object be (Inr body))) = 200 \<longleftrightarrow>
              (\<exists>label \<in> set stream_labels. generateObject_enum be model stream_labels
                 (stream_classifier_text
                    (if destructure_prompt body = Inr None then ''undefined'' else [])) =
                 Inr (JStr label)))
         \<and> status (fst (POST_generate_object_smart be (Inr body))) \<in> {200, 400, 500}
         \<and> (status (fst (POST_generate_object_smart be (Inr body))) = 400 \<longleftrightarrow>
              (\<exists>intent. generateObject_enum be model smart_labels
                 (smart_classifier_text
                    (if destructure_prompt body = Inr None then ''undefined'' else [])) =
                 Inr intent \<and> intent \<notin> JStr ` set smart_labels))
         \<and> (status (fst (POST_generate_object_smart be (Inr body))) = 500 \<longleftrightarrow>
              \<not> list_all (call_ok be) (snd (POST_generate_object_smart be (Inr body))))
         \<and> (status (fst (POST_generate_object_smart be (Inr body))) = 200 \<longleftrightarrow>
              list_all (call_ok be) (snd (POST_generate_object_smart be (Inr body))) \<and>
              (\<exists>label \<in> set smart_labels. generateObject_enum be model smart_labels
                 (smart_classifier_text
                    (if destructure_prompt body = Inr None then ''undefined'' else [])) =
                 Inr (JStr label)))
         \<and> status (fst (POST_stream_object be req)) \<in> {200, 400, 500}
         \<and> status (fst (POST_generate_object_smart be req)) \<in> {200, 400, 500}\<close>
proof -
  define u where "u = (if destructure_prompt body = Inr None then ''undefined'' else [])"
  from assms obtain pr where d: "destructure_prompt body = Inr pr"
    and t: "template pr = Inr u"
    by (auto simp: template_def u_def)
  have stream: "take 1 (snd (POST_stream_object be (Inr body))) =
           [EnumCall model stream_labels (stream_classifier_text u)]
     \<and> status (fst (POST_stream_object be (Inr body))) \<in> {200, 400, 500}
     \<and> (status (fst (POST_stream_object be (Inr body))) = 400 \<longleftrightarrow>
          (\<exists>intent. generateObject_enum be model stream_labels (stream_classifier_text u) =
             Inr intent \<and> intent \<notin> JStr ` set stream_labels))
     \<and> (status (fst (POST_stream_object be (Inr body))) = 500 \<longleftrightarrow>
          (\<exists>e. generateObject_enum be model stream_labels (stream_classifier_text u) = Inl e))
     \<and> (status (fst (POST_stream_object be (Inr body))) = 200 \<longleftrightarrow>
          (\<exists>label \<in> set stream_labels.
             generateObject_enum be model stream_labels (stream_classifier_text u) =
             Inr (JStr label)))"
  proof (cases be "Inr body :: request" rule: POST_stream_outcomes)
    case unreadable
    with d t show ?thesis by (auto simp: destructure_prompt_null)
  next
    case (unclassified body' prompt t' e)
    with d t show ?thesis by (auto simp: stream_failed_def)
  next
    case (unknown body' prompt t' intent)
    with d t show ?thesis by auto
  next
    case (streaming body' prompt t' label schema p ps failure)
    with d t show ?thesis by auto
  qed
  have smart: "take 1 (snd (POST_generate_object_smart be (Inr body))) =
           [EnumCall model smart_labels (smart_classifier_text u)]
     \<and> status (fst (POST_generate_object_smart be (Inr body))) \<in> {200, 400, 500}
     \<and> (status (fst (POST_generate_object_smart be (Inr body))) = 400 \<longleftrightarrow>
          (\<exists>intent. generateObject_enum be model smart_labels (smart_classifier_text u) =
             Inr intent \<and> intent \<notin> JStr ` set smart_labels))
     \<and> (status (fst (POST_generate_object_smart be (Inr body))) = 500 \<longleftrightarrow>
          \<not> list_all (call_ok be) (snd (POST_generate_object_smart be (Inr body))))
     \<and> (status (fst (POST_generate_object_smart be (Inr body))) = 200 \<longleftrightarrow>
          list_all (call_ok be) (snd (POST_generate_object_smart be (Inr body))) \<and>
          (\<exists>label \<in> set smart_labels.
             generateObject_enum be model smart_labels (smart_classifier_text u) =
             Inr (JStr label)))"
  proof (cases be "Inr body :: request" rule: POST_smart_outcomes)
    case unreadable
    with d t show ?thesis by (auto simp: destructure_prompt_null)
  next
    case (unclassified body' prompt t' e)
    with d t show ?thesis by (auto simp: smart_failed_def)
  next
    case (unknown body' prompt t' intent)
    with d t show ?thesis by auto
  next
    case (failed body' prompt t' label g e)
    with d t show ?thesis by (auto simp: smart_failed_def call_ok_generation_call)
  next
    case (generated body' prompt t' label g d')
    with d t show ?thesis by (auto simp: call_ok_generation_call)
  qed
  have every: "status (fst (POST_stream_object be req)) \<in> {200, 400, 500}"
    "status (fst (POST_generate_object_smart be req)) \<in> {200, 400, 500}"
    subgoal by (cases be req rule: POST_stream_outcomes) (simp_all add: stream_failed_def)
    subgoal by (cases be req rule: POST_smart_outcomes) (simp_all add: smart_failed_def)
    done
  have texts: \<open>stream_classifier_text u =
       ''Classify what the user is asking for: "'' @ u @
       ''"\<newline>      \<newline>'' @
       ''      - recipe: User wants a recipe or cooking instructions\<newline>'' @
       ''      - person: User is asking about a person\<newline>'' @
       ''      - product: User wants product information\<newline>'' @
       ''      - story: User wants a creative story''\<close>
    \<open>smart_classifier_text u =
       ''Classify what the user is asking for: "'' @ u @
       ''"\<newline>      \<newline>'' @
       ''      - recipe: User wants a recipe or cooking instructions\<newline>'' @
       ''      - person: User is asking about a person\<newline>'' @
       ''      - general-question: User is asking a general knowledge question\<newline>'' @
       ''      - product: User wants product information''\<close>
    by (simp_all add: stream_classifier_text_def smart_classifier_text_def)
  note s1 = stream[THEN conjunct1, unfolded texts] and s2 = stream[THEN conjunct2]
  note t1 = smart[THEN conjunct1, unfolded texts] and t2 = smart[THEN conjunct2]
  from s1 s2 t1 t2 every show ?thesis
    unfolding u_def[symmetric] by blast
qed

theorem prompt_not_validated_witness:
  \<open>destructure_prompt (JObj [(''question'', JStr ''hello'')]) = Inr None
   \<and> take 1 (snd (POST_stream_object recipe_backend (Inr (JObj [(''question'', JStr ''hello'')])))) =
       [EnumCall model stream_labels
          (''Classify what the user is asking for: "undefined"\<newline>      \<newline>'' @
           ''      - recipe: User wants a recipe or cooking instructions\<newline>'' @
           ''      - person: User is asking about a person\<newline>'' @
           ''      - product: User wants product information\<newline>'' @
           ''      - story: User wants a creative story'')]
   \<and> status (fst (POST_stream_object recipe_backend (Inr (JObj [(''question'', JStr ''hello'')])))) = 200
   \<and> destructure_prompt (JObj [(''prompt'', JStr [])]) = Inr (Some (JStr []))
   \<and> take 1 (snd (POST_generate_object_smart recipe_backend (Inr (JObj [(''prompt'', JStr [])])))) =
       [EnumCall model smart_labels
          (''Classify what the user is asking for: ""\<newline>      \<newline>'' @
           ''      - recipe: User wants a recipe or cooking instructions\<newline>'' @
           ''      - person: User is asking about a person\<newline>'' @
           ''      - general-question: User is asking a general knowledge question\<newline>'' @
           ''      - product: User wants product information'')]
   \<and> status (fst (POST_generate_object_smart recipe_backend (Inr (JObj [(''prompt'', JStr [])])))) = 200
   \<and> destructure_prompt (JArr []) = Inr None
   \<and> take 1 (snd (POST_generate_object_smart overloaded_backend (Inr (JArr [])))) =
       [EnumCall model smart_labels
          (''Classify what the user is asking for: "undefined"\<newline>      \<newline>'' @
           ''      - recipe: User wants a recipe or cooking instructions\<newline>'' @
           ''      - person: User is asking about a person\<newline>'' @
           ''      - general-question: User is asking a general knowledge question\<newline>'' @
           ''      - product: User wants product information'')]
   \<and> status (fst (POST_generate_object_smart overloaded_backend (Inr (JArr [])))) = 500
   \<and> status (fst (POST_stream_object
        (const_backend (Inr (JStr ''poem'')) (Inl TypeError) (Inl TypeError) ([], None))
        (Inr (JObj [(''question'', JStr ''hello'')])))) = 400
   \<and> JStr ''poem'' \<notin> JStr ` set stream_labels\<close>
  using prompt_not_validated[of "JObj [(''question'', JStr ''hello'')]" recipe_backend thai_request]
    prompt_not_validated[of "JObj [(''prompt'', JStr [])]" recipe_backend thai_request]
    prompt_not_validated[of "JArr []" overloaded_backend thai_request]
    prompt_not_validated[of "JObj [(''question'', JStr ''hello'')]"
      "const_backend (Inr (JStr ''poem'')) (Inl TypeError) (Inl TypeError) ([], None)" thai_request]
  by (simp add: recipe_backend_def overloaded_backend_def const_backend_def
      POST_stream_object_def
      POST_generate_object_smart_def stream_switch_def smart_switch_def smart_object_case_def
      stream_classifier_prompt_def smart_classifier_prompt_def template_def
      stream_classifier_text_def smart_classifier_text_def thai_request_def
      smart_failed_def stream_labels_def)

text \<open>
  C9 as stated fails: the body \<^verbatim>\<open>null\<close> is a JSON body without a \<^verbatim>\<open>prompt\<close> field,
  and for it the destructuring \<^verbatim>\<open>const { prompt } = null\<close> throws inside the
  \<^verbatim>\<open>try\<close>: both handlers answer with status 500 and never reach the classification.
\<close>

theorem null_body_not_classified:
  "null_request = Inr JNull
   \<and> destructure_prompt JNull = Inl TypeError
   \<and> POST_stream_object recipe_backend null_request =
       (Response_json 500 (JObj [(''error'', JStr ''Failed to stream object'')]), [])
   \<and> POST_generate_object_smart recipe_backend null_request =
       (Response_json 500 (JObj [(''error'', JStr ''Failed to generate response'')]), [])
   \<and> take 1 (snd (POST_stream_object recipe_backend null_request)) = []
   \<and> take 1 (snd (POST_generate_object_smart recipe_backend null_request)) = []"
  by (simp add: null_request_def POST_stream_object_def POST_generate_object_smart_def
      stream_failed_def smart_failed_def)

section \<open>The responses of the generate-object-smart endpoint\<close>

text \<open>
  C5. Every response of generate-object-smart is a JSON response, either status 200 with
  a body \<^verbatim>\<open>{"type":label,"data":object}\<close> for a registered label, or status 400 or
  500 with a body \<^verbatim>\<open>{"error":string}\<close>. When a call to the backend fails (the
  classification or the generation), the response is the 500 error body. A response has
  status 200 only when every call returned, and then its \<^verbatim>\<open>type\<close> is the label the
  classifier returned and its \<^verbatim>\<open>data\<close> is the final object of the generation
  registered for that label: what \<^verbatim>\<open>generateObject\<close> returned for the schema and the
  prompt of the label, or \<^verbatim>\<open>{"answer":text}\<close> for the text \<^verbatim>\<open>generateText\<close> returned.
  When both the classification and the generation call were made and returned, the
  status is 200. Last, for a request whose prompt is read and interpolated and which the
  classifier gives a registered label, the response and the calls are determined: the
  classification, then the call of the generation registered for the label, and the 200
  body with the data that call returned, or the 500 body when it threw.
\<close>

theorem smart_response_shape:
  "(case fst (POST_generate_object_smart be req) of
      Response_json s b \<Rightarrow>
        (s = 200 \<and> smart_success_body b) \<or> ((s = 400 \<or> s = 500) \<and> error_body b)
    | Response_stream s h c \<Rightarrow> False)
   \<and> (\<not> list_all (call_ok be) (snd (POST_generate_object_smart be req)) \<longrightarrow>
        fst (POST_generate_object_smart be req) =
          Response_json 500 (JObj [(''error'', JStr ''Failed to generate response'')]))
   \<and> (status (fst (POST_generate_object_smart be req)) = 200 \<longrightarrow>
        list_all (call_ok be) (snd (POST_generate_object_smart be req)) \<and>
        (\<exists>body prompt t label g d.
           req = Inr body \<and> destructure_prompt body = Inr prompt \<and> template prompt = Inr t \<and>
           generateObject_enum be model smart_labels (smart_classifier_text t) =
             Inr (JStr label) \<and>
           label \<in> set smart_labels \<and>
           smart_registry label prompt t = Some g \<and>
           generation_data be g = Inr d \<and>
           POST_generate_object_smart be req =
             (Response_json 200 (JObj [(''type'', JStr label), (''data'', d)]),
              [EnumCall model smart_labels (smart_classifier_text t), generation_call g])))
   \<and> (length (snd (POST_generate_object_smart be req)) = 2 \<and>
       list_all (call_ok be) (snd (POST_generate_object_smart be req)) \<longrightarrow>
        status (fst (POST_generate_object_smart be req)) = 200)
   \<and> (destructure_prompt body' = Inr prompt' \<and> template prompt' = Inr t' \<and>
       generateObject_enum be model smart_labels (smart_classifier_text t') = Inr (JStr label') \<and>
       smart_registry label' prompt' t' = Some g' \<longrightarrow>
        POST_generate_object_smart be (Inr body') =
          (case generation_data be g' of
             Inl e \<Rightarrow>
               Response_json 500 (JObj [(''error'', JStr ''Failed to generate response'')])
           | Inr d \<Rightarrow>
               Response_json 200 (JObj [(''type'', JStr label'), (''data'', d)]),
           [EnumCall model smart_labels (smart_classifier_text t'), generation_call g']))"
proof -
  have shape: "(case fst (POST_generate_object_smart be req) of
      Response_json s b \<Rightarrow>
        (s = 200 \<and> smart_success_body b) \<or> ((s = 400 \<or> s = 500) \<and> error_body b)
    | Response_stream s h c \<Rightarrow> False)"
    by (cases be req rule: POST_smart_outcomes) (simp_all add: smart_failed_def)
  have failure: "fst (POST_generate_object_smart be req) =
          Response_json 500 (JObj [(''error'', JStr ''Failed to generate response'')])"
    if "\<not> list_all (call_ok be) (snd (POST_generate_object_smart be req))"
    using that
    by (cases be req rule: POST_smart_outcomes)
       (simp_all add: smart_failed_def call_ok_generation_call)
  have success: "list_all (call_ok be) (snd (POST_generate_object_smart be req)) \<and>
        (\<exists>body prompt t label g d.
           req = Inr body \<and> destructure_prompt body = Inr prompt \<and> template prompt = Inr t \<and>
           generateObject_enum be model smart_labels (smart_classifier_text t) =
             Inr (JStr label) \<and>
           label \<in> set smart_labels \<and>
           smart_registry label prompt t = Some g \<and>
           generation_data be g = Inr d \<and>
           POST_generate_object_smart be req =
             (Response_json 200 (JObj [(''type'', JStr label), (''data'', d)]),
              [EnumCall model smart_labels (smart_classifier_text t), generation_call g]))"
    if "status (fst (POST_generate_object_smart be req)) = 200"
  proof (cases be req rule: POST_smart_outcomes)
    case (generated body prompt t label g d)
    then have "list_all (call_ok be) (snd (POST_generate_object_smart be req))"
      by (simp add: call_ok_generation_call)
    with generated show ?thesis by blast
  qed (use that in \<open>simp_all add: smart_failed_def\<close>)
  have both: "status (fst (POST_generate_object_smart be req)) = 200"
    if "length (snd (POST_generate_object_smart be req)) = 2 \<and>
        list_all (call_ok be) (snd (POST_generate_object_smart be req))"
    using that
    by (cases be req rule: POST_smart_outcomes)
       (simp_all add: smart_failed_def call_ok_generation_call)
  have run: "POST_generate_object_smart be (Inr body') =
          (case generation_data be g' of
             Inl e \<Rightarrow>
               Response_json 500 (JObj [(''error'', JStr ''Failed to generate response'')])
           | Inr d \<Rightarrow>
               Response_json 200 (JObj [(''type'', JStr label'), (''data'', d)]),
           [EnumCall model smart_labels (smart_classifier_text t'), generation_call g'])"
    if "destructure_prompt body' = Inr prompt' \<and> template prompt' = Inr t' \<and>
       generateObject_enum be model smart_labels (smart_classifier_text t') = Inr (JStr label') \<and>
       smart_registry label' prompt' t' = Some g'"
  proof -
    from that have d: "destructure_prompt body' = Inr prompt'" and t: "template prompt' = Inr t'"
      and c: "generateObject_enum be model smart_labels (smart_classifier_text t') =
                Inr (JStr label')"
      and g: "smart_registry label' prompt' t' = Some g'"
      by simp_all
    show ?thesis
      unfolding POST_smart_classified[OF d t c] smart_switch_registry[OF t g]
      by (simp add: smart_failed_def split: sum.splits)
  qed
  from shape failure success both run show ?thesis by blast
qed

theorem smart_response_shape_witness:
  "destructure_prompt (JObj [(''prompt'', JStr ''Ada Lovelace'')]) =
     Inr (Some (JStr ''Ada Lovelace''))
   \<and> template (Some (JStr ''Ada Lovelace'')) = Inr ''Ada Lovelace''
   \<and> smart_registry ''person'' (Some (JStr ''Ada Lovelace'')) ''Ada Lovelace'' =
       Some (Structured smart_person_schema
               (Some (JStr ''Provide structured information about: Ada Lovelace'')))
   \<and> POST_generate_object_smart
       (const_backend (Inr (JStr ''person''))
          (Inr (JObj [(''person'', JObj [(''name'', JStr ''Ada Lovelace'')])]))
          (Inl TypeError) ([], None))
       (Inr (JObj [(''prompt'', JStr ''Ada Lovelace'')])) =
     (Response_json 200
        (JObj [(''type'', JStr ''person''),
               (''data'', JObj [(''person'', JObj [(''name'', JStr ''Ada Lovelace'')])])]),
      [EnumCall model smart_labels (smart_classifier_text ''Ada Lovelace''),
       ObjectCall model smart_person_schema
         (Some (JStr ''Provide structured information about: Ada Lovelace''))])
   \<and> POST_generate_object_smart
       (const_backend (Inr (JStr ''person'')) (Inl (BackendError ''no object generated''))
          (Inl TypeError) ([], None))
       (Inr (JObj [(''prompt'', JStr ''Ada Lovelace'')])) =
     (Response_json 500 (JObj [(''error'', JStr ''Failed to generate response'')]),
      [EnumCall model smart_labels (smart_classifier_text ''Ada Lovelace''),
       ObjectCall model smart_person_schema
         (Some (JStr ''Provide structured information about: Ada Lovelace''))])
   \<and> fst (POST_generate_object_smart recipe_backend thai_request) =
     Response_json 200
       (JObj [(''type'', JStr ''recipe''),
              (''data'', JObj [(''recipe'', JObj [(''name'', JStr ''Thai Red Curry'')])])])
   \<and> length (snd (POST_generate_object_smart recipe_backend thai_request)) = 2
   \<and> list_all (call_ok recipe_backend) (snd (POST_generate_object_smart recipe_backend thai_request))
   \<and> \<not> list_all (call_ok overloaded_backend)
         (snd (POST_generate_object_smart overloaded_backend thai_request))
   \<and> fst (POST_generate_object_smart overloaded_backend thai_request) =
       Response_json 500 (JObj [(''error'', JStr ''Failed to generate response'')])"
  using smart_response_shape[of
      "const_backend (Inr (JStr ''person''))
          (Inr (JObj [(''person'', JObj [(''name'', JStr ''Ada Lovelace'')])]))
          (Inl TypeError) ([], None)"
      thai_request "JObj [(''prompt'', JStr ''Ada Lovelace'')]" "Some (JStr ''Ada Lovelace'')"
      "''Ada Lovelace''" "''person''"
      "Structured smart_person_schema
         (Some (JStr ''Provide structured information about: Ada Lovelace''))"]
    smart_response_shape[of
      "const_backend (Inr (JStr ''person'')) (Inl (BackendError ''no object generated''))
          (Inl TypeError) ([], None)"
      thai_request "JObj [(''prompt'', JStr ''Ada Lovelace'')]" "Some (JStr ''Ada Lovelace'')"
      "''Ada Lovelace''" "''person''"
      "Structured smart_person_schema
         (Some (JStr ''Provide structured information about: Ada Lovelace''))"]
    smart_response_shape[of recipe_backend thai_request]
    smart_response_shape[of overloaded_backend thai_request]
  by (simp add: recipe_backend_def overloaded_backend_def const_backend_def thai_request_def
      template_def smart_registry_def smart_classifier_prompt_def interpolate_def
      POST_generate_object_smart_def smart_switch_def smart_object_case_def smart_failed_def)



end
